theory Spec2Isabelle
  imports Complex_Main
begin

section \<open>Python values, exceptions and the effects of the harness\<close>

text \<open>
  The harness of \<^verbatim>\<open>stepic_utils/quiz.py\<close> passes arbitrary Python values between the
  functions of a quiz module and inspects them with \<^verbatim>\<open>isinstance\<close>. The values are a
  datatype with one constructor per Python type the harness tells apart. \<open>PReal\<close> is an
  instance of any other class that is a \<^verbatim>\<open>numbers.Real\<close> (a \<^verbatim>\<open>fractions.Fraction\<close>,
  or an instance of a class registered with \<^verbatim>\<open>numbers.Real\<close>): the name of its class and
  the number it compares as. \<open>PObject\<close> stands for a value of any other type (a set, a
  function, a \<^verbatim>\<open>decimal.Decimal\<close>, a complex number, an instance of a class that is not a
  \<^verbatim>\<open>numbers.Real\<close>). A number is either finite, given by its exact rational value, or
  one of the three special values of a float: the comparisons of \<^verbatim>\<open>clean_score\<close> are
  exact on them.
\<close>

datatype pyfloat = Finite rat | PosInf | NegInf | NaN

datatype pyval =
    PNone
  | PBool bool
  | PInt int
  | PFloat pyfloat
  | PStr string
  | PBytes "nat list"
  | PTuple "pyval list"
  | PList "pyval list"
  | PDict "(pyval \<times> pyval) list"
  | PReal string pyfloat
  | PObject nat

text \<open>
  A message is a format template with the arguments of \<^verbatim>\<open>template.format(args)\<close>;
  the rendering of the arguments is Python's and is not modelled.
\<close>

datatype message = Message string "pyval list"

text \<open>
  Exceptions. \<open>TypeError\<close> and \<open>ValueError\<close> stand for the class and its subclasses (what
  an \<^verbatim>\<open>except (TypeError, ValueError)\<close> clause catches), \<open>SystemExit\<close> is what
  \<^verbatim>\<open>sys.exit\<close> raises, \<open>AssertionError\<close> is the failure exception of the test
  framework, \<open>KeyboardInterrupt\<close> is the one exception that the test framework lets
  through, and \<open>OtherException\<close> is any other exception class.
\<close>

datatype exn =
    SystemExit int
  | TypeError
  | ValueError
  | AssertionError message
  | KeyboardInterrupt
  | OtherException string

text \<open>What the harness writes to the error stream: a message, or the trace of an exception.\<close>

datatype err_output = Printed message | Traceback exn

text \<open>
  The world is the state of the user's code (of any type \<open>'s\<close>: a random generator,
  globals, files) together with the error stream. A computation of the harness takes a
  world and either returns a value or raises, in a new world.
\<close>

type_synonym 's world = "'s \<times> err_output list"

datatype 'a res = Return 'a | Raise exn

type_synonym ('s, 'a) prog = "'s world \<Rightarrow> 'a res \<times> 's world"

definition ret :: "'a \<Rightarrow> ('s, 'a) prog" where
  "ret v w = (Return v, w)"

definition raise :: "exn \<Rightarrow> ('s, 'a) prog" where
  "raise e w = (Raise e, w)"

definition seq :: "('s, 'a) prog \<Rightarrow> ('a \<Rightarrow> ('s, 'b) prog) \<Rightarrow> ('s, 'b) prog" where
  "seq m f w = (case m w of (Return a, w') \<Rightarrow> f a w' | (Raise e, w') \<Rightarrow> (Raise e, w'))"

text \<open>
  A function of the user's module: called on its arguments in a state of the user's code,
  it returns a value or raises, and leaves a new state. A call with a wrong number of
  arguments is a \<open>TypeError\<close> raised by the body. An attribute of the module is such a
  function with the parameter names that \<^verbatim>\<open>inspect.signature\<close> finds, or a callable
  for which \<^verbatim>\<open>inspect.signature\<close> finds no signature and raises a \<open>ValueError\<close>
  (\<open>Builtin\<close>: \<^verbatim>\<open>int\<close>, \<^verbatim>\<open>str\<close> and \<^verbatim>\<open>max\<close> are such callables), or a value
  that is not callable (\<open>Value PNone\<close> when \<^verbatim>\<open>generate\<close> is absent).
\<close>

type_synonym 's body = "pyval list \<Rightarrow> 's \<Rightarrow> (exn + pyval) \<times> 's"

datatype 's attr = Function "string list" "'s body" | Builtin "'s body" | Value pyval

fun call :: "'s attr \<Rightarrow> 's body" where
  "call (Function params b) = b"
| "call (Builtin b) = b"
| "call (Value v) = (\<lambda>args s. (Inl TypeError, s))"

fun is_None :: "'s attr \<Rightarrow> bool" where
  "is_None (Value PNone) = True"
| "is_None _ = False"

subsection \<open>\<^verbatim>\<open>fail_with_message\<close> and \<^verbatim>\<open>call_user_code\<close>\<close>

definition fail_with_message :: "message \<Rightarrow> ('s, 'a) prog" where
  "fail_with_message m w = (Raise (SystemExit (- 1)), (fst w, snd w @ [Printed m]))"

definition call_user_code :: "'s body \<Rightarrow> pyval list \<Rightarrow> ('s, pyval) prog" where
  "call_user_code function args w =
     (case function args (fst w) of
        (Inr v, s') \<Rightarrow> (Return v, (s', snd w))
      | (Inl e, s') \<Rightarrow>
          fail_with_message (Message ''Quiz failed with exception!'' [])
            (s', snd w @ [Traceback e]))"

subsection \<open>\<^verbatim>\<open>check_signatures\<close>\<close>

fun join :: "string list \<Rightarrow> string" where
  "join [] = []"
| "join [x] = x"
| "join (x # y # ys) = x @ '', '' @ join (y # ys)"

text \<open>
  For each triple in turn: an attribute that is not callable is fatal; then
  \<^verbatim>\<open>signature(f)\<close> is taken, outside of any \<^verbatim>\<open>try\<close>, so that its \<open>ValueError\<close>
  leaves \<^verbatim>\<open>check_signatures\<close> with nothing printed; then the number of parameters is
  compared.
\<close>

fun check_signatures :: "(string \<times> 's attr \<times> nat) list \<Rightarrow> ('s, unit) prog" where
  "check_signatures [] = ret ()"
| "check_signatures ((name, f, n_param) # specs) =
     (case f of
        Value v \<Rightarrow> fail_with_message (Message ''`{}` is not callable.'' [PStr name])
      | Builtin b \<Rightarrow> raise ValueError
      | Function params b \<Rightarrow>
          if length params \<noteq> n_param
          then fail_with_message
                 (Message ''Expected `{}` with {} arguments, got {}.''
                    [PStr name, PInt (int n_param),
                     PStr (if params \<noteq> [] then join params else ''none'')])
          else check_signatures specs)"

section \<open>The cleaners of \<^verbatim>\<open>BaseQuiz\<close>\<close>

fun is_dict :: "pyval \<Rightarrow> bool" where
  "is_dict (PDict kvs) = True"
| "is_dict _ = False"

fun is_str :: "pyval \<Rightarrow> bool" where
  "is_str (PStr x) = True"
| "is_str _ = False"

fun is_bytes :: "pyval \<Rightarrow> bool" where
  "is_bytes (PBytes x) = True"
| "is_bytes _ = False"

definition clean_dataset :: "pyval \<Rightarrow> ('s, pyval) prog" where
  "clean_dataset dataset =
     (if \<not> (is_dict dataset \<or> is_str dataset \<or> is_bytes dataset)
      then fail_with_message
             (Message ''dataset should be one of (dict, str, bytes) instead of {}'' [dataset])
      else if is_str dataset \<or> is_bytes dataset
      then ret (PDict [(PStr ''file'', dataset)])
      else ret dataset)"

text \<open>
  \<^verbatim>\<open>utils.encode\<close> and \<^verbatim>\<open>utils.decode\<close> belong to the module \<^verbatim>\<open>utils\<close>,
  which \<^verbatim>\<open>quiz.py\<close> imports and whose code is outside this development, so they are
  parameters: each returns a value or raises. The encoded form is a string.
\<close>

record utils =
  encode :: "pyval \<Rightarrow> exn + string"
  decode :: "string \<Rightarrow> exn + pyval"

text \<open>\<^verbatim>\<open>utils.decode(utils.encode(clue))\<close>: the first exception raised wins.\<close>

definition decode_encode :: "utils \<Rightarrow> pyval \<Rightarrow> exn + pyval" where
  "decode_encode u clue = (case encode u clue of Inl e \<Rightarrow> Inl e | Inr b \<Rightarrow> decode u b)"

definition clean_clue :: "utils \<Rightarrow> pyval \<Rightarrow> ('s, pyval) prog" where
  "clean_clue u clue =
     (case decode_encode u clue of
        Inr cleaned_clue \<Rightarrow> ret cleaned_clue
      | Inl e \<Rightarrow>
          if e = TypeError \<or> e = ValueError
          then fail_with_message (Message ''clue is not serializable: {}'' [clue])
          else raise e)"

definition clean_answer :: "pyval \<Rightarrow> ('s, pyval) prog" where
  "clean_answer answer =
     (if \<not> is_str answer
      then fail_with_message (Message ''answer should be a str instead of {}'' [answer])
      else ret answer)"

text \<open>
  \<^verbatim>\<open>isinstance(score, numbers.Real)\<close> holds of a bool, an int, a float and an
  instance of any other class that is a \<^verbatim>\<open>numbers.Real\<close>, and of no other value;
  \<open>real_value\<close> gives the number such a value compares as. \<open>float_le\<close> is \<^verbatim>\<open><=\<close>
  on these numbers: every comparison with \<open>NaN\<close> is false.
\<close>

fun real_value :: "pyval \<Rightarrow> pyfloat option" where
  "real_value (PBool b) = Some (Finite (if b then 1 else 0))"
| "real_value (PInt i) = Some (Finite (of_int i))"
| "real_value (PFloat x) = Some x"
| "real_value (PReal c x) = Some x"
| "real_value _ = None"

fun float_le :: "pyfloat \<Rightarrow> pyfloat \<Rightarrow> bool" where
  "float_le NaN y = False"
| "float_le x NaN = False"
| "float_le NegInf y = True"
| "float_le x PosInf = True"
| "float_le (Finite a) (Finite b) = (a \<le> b)"
| "float_le x y = False"

definition clean_score :: "pyval \<Rightarrow> ('s, pyval) prog" where
  "clean_score score =
     (if \<not> (case real_value score of
               None \<Rightarrow> False
             | Some x \<Rightarrow> float_le (Finite 0) x \<and> float_le x (Finite 1))
      then fail_with_message (Message ''score should be a number in range [0, 1]'' [])
      else ret score)"

definition clean_hint :: "pyval \<Rightarrow> ('s, pyval) prog" where
  "clean_hint hint =
     (if \<not> is_str hint
      then fail_with_message (Message ''hint should be a str'' [])
      else ret hint)"

section \<open>The wrappers of \<^verbatim>\<open>BaseQuiz\<close>\<close>

text \<open>\<^verbatim>\<open>a, b = ret\<close> on a tuple: \<open>None\<close> is the \<open>ValueError\<close> of a wrong length.\<close>

fun unpack2 :: "pyval list \<Rightarrow> (pyval \<times> pyval) option" where
  "unpack2 [a, b] = Some (a, b)"
| "unpack2 _ = None"

text \<open>
  \<^verbatim>\<open>if isinstance(dataset, dict) and 'file' in dataset and len(dataset) == 1:
      dataset = dataset['file']\<close>
\<close>

fun unwrap_file :: "pyval \<Rightarrow> pyval" where
  "unwrap_file (PDict [(k, v)]) = (if k = PStr ''file'' then v else PDict [(k, v)])"
| "unwrap_file dataset = dataset"

definition wrap_solve :: "'s body \<Rightarrow> pyval \<Rightarrow> ('s, pyval) prog" where
  "wrap_solve solve dataset =
     seq (call_user_code solve [unwrap_file dataset]) clean_answer"

text \<open>
  The first half of the wrapped \<^verbatim>\<open>generate\<close>: a tuple is unpacked into dataset and
  clue (\<^verbatim>\<open>fail_with_message\<close> when its length is not 2), any other value is the
  dataset and the clue is \<^verbatim>\<open>self.solve(dataset)\<close>.
\<close>

definition generate_result :: "'s body \<Rightarrow> pyval \<Rightarrow> ('s, pyval \<times> pyval) prog" where
  "generate_result solve r =
     (case r of
        PTuple xs \<Rightarrow>
          (case unpack2 xs of
             Some dc \<Rightarrow> ret dc
           | None \<Rightarrow>
               fail_with_message
                 (Message (''generate() returned a tuple but it's length is not 2.'' @ [CHR 0x0A]
                           @ ''generate should return either a dataset ''
                           @ ''or a (dataset, clue) tuple.'') []))
      | _ \<Rightarrow> seq (wrap_solve solve r) (\<lambda>clue. ret (r, clue)))"

definition wrap_generate :: "utils \<Rightarrow> 's body \<Rightarrow> 's body \<Rightarrow> ('s, pyval \<times> pyval) prog" where
  "wrap_generate u generate solve =
     seq (call_user_code generate []) (\<lambda>r.
     seq (generate_result solve r) (\<lambda>(dataset, clue).
     seq (clean_dataset dataset) (\<lambda>dataset'.
     seq (clean_clue u clue) (\<lambda>clue'.
     ret (dataset', clue')))))"

text \<open>
  The first half of the wrapped \<^verbatim>\<open>check\<close>: a tuple is unpacked into score and hint
  (\<^verbatim>\<open>fail_with_message\<close> when its length is not 2), any other value is the score and
  the hint is the empty string.
\<close>

definition check_result :: "pyval \<Rightarrow> ('s, pyval \<times> pyval) prog" where
  "check_result r =
     (case r of
        PTuple xs \<Rightarrow>
          (case unpack2 xs of
             Some sh \<Rightarrow> ret sh
           | None \<Rightarrow>
               fail_with_message
                 (Message (''check() returned a tuple but it's length is not 2.'' @ [CHR 0x0A]
                           @ ''check should return either a score or a (score, hit) tuple.'') []))
      | _ \<Rightarrow> ret (r, PStr ''''))"

definition wrap_check :: "'s body \<Rightarrow> pyval \<Rightarrow> pyval \<Rightarrow> ('s, pyval \<times> pyval) prog" where
  "wrap_check check reply clue =
     seq (call_user_code check [reply, clue]) (\<lambda>r.
     seq (check_result r) (\<lambda>(score_value, hint).
     seq (clean_score score_value) (\<lambda>score_value'.
     seq (clean_hint hint) (\<lambda>hint'.
     ret (score_value', hint')))))"

section \<open>\<^verbatim>\<open>DatasetQuiz\<close> and \<^verbatim>\<open>CodeQuiz\<close>\<close>

text \<open>
  A quiz object holds the three functions that its constructor hands to
  \<^verbatim>\<open>BaseQuiz.__init__\<close>; \<^verbatim>\<open>self.generate\<close>, \<^verbatim>\<open>self.solve\<close> and
  \<^verbatim>\<open>self.check\<close> are their wrappings.
\<close>

record 's quiz =
  raw_generate :: "'s body"
  raw_solve :: "'s body"
  raw_check :: "'s body"

text \<open>
  \<^verbatim>\<open>DatasetQuiz.__init__\<close>. Without \<^verbatim>\<open>generate\<close> the three functions are the
  lambdas \<^verbatim>\<open>lambda: ({}, '')\<close>, \<^verbatim>\<open>lambda dataset: solve_fun()\<close> and
  \<^verbatim>\<open>lambda reply, clue: check_fun(reply)\<close>.
\<close>

definition DatasetQuiz_init :: "'s attr \<Rightarrow> 's attr \<Rightarrow> 's attr \<Rightarrow> ('s, 's quiz) prog" where
  "DatasetQuiz_init generate_fun solve_fun check_fun =
     (if is_None generate_fun
      then seq (check_signatures [(''solve'', solve_fun, 0), (''check'', check_fun, 1)]) (\<lambda>_.
             ret \<lparr>raw_generate =
                    (\<lambda>args s. case args of
                                 [] \<Rightarrow> (Inr (PTuple [PDict [], PStr '''']), s)
                               | _ \<Rightarrow> (Inl TypeError, s)),
                  raw_solve =
                    (\<lambda>args s. case args of
                                 [dataset] \<Rightarrow> call solve_fun [] s
                               | _ \<Rightarrow> (Inl TypeError, s)),
                  raw_check =
                    (\<lambda>args s. case args of
                                 [reply, clue] \<Rightarrow> call check_fun [reply] s
                               | _ \<Rightarrow> (Inl TypeError, s))\<rparr>)
      else seq (check_signatures [(''generate'', generate_fun, 0), (''solve'', solve_fun, 1),
                                  (''check'', check_fun, 2)]) (\<lambda>_.
             ret \<lparr>raw_generate = call generate_fun,
                  raw_solve = call solve_fun,
                  raw_check = call check_fun\<rparr>))"

definition DatasetQuiz_generate :: "utils \<Rightarrow> 's quiz \<Rightarrow> ('s, pyval \<times> pyval) prog" where
  "DatasetQuiz_generate u q = wrap_generate u (raw_generate q) (raw_solve q)"

definition quiz_solve :: "'s quiz \<Rightarrow> pyval \<Rightarrow> ('s, pyval) prog" where
  "quiz_solve q = wrap_solve (raw_solve q)"

definition quiz_check :: "'s quiz \<Rightarrow> pyval \<Rightarrow> pyval \<Rightarrow> ('s, pyval \<times> pyval) prog" where
  "quiz_check q = wrap_check (raw_check q)"

text \<open>\<^verbatim>\<open>score == 1\<close>: the score compares equal to the integer 1.\<close>

definition eq_1 :: "pyval \<Rightarrow> bool" where
  "eq_1 score = (real_value score = Some (Finite 1))"

definition DatasetQuiz_self_check :: "utils \<Rightarrow> 's quiz \<Rightarrow> ('s, bool) prog" where
  "DatasetQuiz_self_check u q =
     seq (DatasetQuiz_generate u q) (\<lambda>(dataset, clue).
     seq (quiz_solve q dataset) (\<lambda>answer.
     seq (quiz_check q answer clue) (\<lambda>(score, hint).
     ret (eq_1 score))))"

definition CodeQuiz_init :: "'s attr \<Rightarrow> 's attr \<Rightarrow> 's attr \<Rightarrow> ('s, 's quiz) prog" where
  "CodeQuiz_init generate_fun solve_fun check_fun =
     seq (if is_None generate_fun
          then fail_with_message (Message ''Code Quiz should export generate'' [])
          else ret ()) (\<lambda>_.
     seq (check_signatures [(''generate'', generate_fun, 0), (''solve'', solve_fun, 1),
                            (''check'', check_fun, 2)]) (\<lambda>_.
     ret \<lparr>raw_generate = call generate_fun,
          raw_solve = call solve_fun,
          raw_check = call check_fun\<rparr>))"

definition CodeQuiz_clean_dataset :: "pyval \<Rightarrow> ('s, pyval) prog" where
  "CodeQuiz_clean_dataset dataset =
     (if \<not> is_str dataset
      then fail_with_message (Message ''dataset should be a str instead of {}'' [dataset])
      else ret dataset)"

definition is_dataset :: "pyval \<Rightarrow> bool" where
  "is_dataset x = is_str x"

text \<open>
  \<^verbatim>\<open>isinstance(x, tuple) and len(x) == 2 and isinstance(x[0], str)\<close>
\<close>

fun is_dataset_and_clue :: "pyval \<Rightarrow> bool" where
  "is_dataset_and_clue (PTuple [a, b]) = is_str a"
| "is_dataset_and_clue _ = False"

text \<open>
  A list comprehension whose element expression may exit or raise: the elements are
  computed from left to right and the first failure ends the comprehension.
\<close>

fun comprehension :: "('a \<Rightarrow> ('s, 'b) prog) \<Rightarrow> 'a list \<Rightarrow> ('s, 'b list) prog" where
  "comprehension f [] w = (Return [], w)"
| "comprehension f (x # xs) w =
     (case f x w of
        (Raise e, w') \<Rightarrow> (Raise e, w')
      | (Return y, w') \<Rightarrow>
          (case comprehension f xs w' of
             (Raise e, w'') \<Rightarrow> (Raise e, w'')
           | (Return ys, w'') \<Rightarrow> (Return (y # ys), w'')))"

text \<open>
  \<^verbatim>\<open>for dataset, clue in ret\<close> unpacks each element. In \<^verbatim>\<open>CodeQuiz.wrap_generate\<close>
  every element is a tuple of length 2 where this is reached; the other equations are what
  Python does with a tuple of another length and with a value that cannot be unpacked.
\<close>

fun unpack_pair :: "pyval \<Rightarrow> ('s, pyval \<times> pyval) prog" where
  "unpack_pair (PTuple xs) = (case unpack2 xs of Some p \<Rightarrow> ret p | None \<Rightarrow> raise ValueError)"
| "unpack_pair v = raise TypeError"

definition CodeQuiz_wrap_generate ::
  "utils \<Rightarrow> 's body \<Rightarrow> 's body \<Rightarrow> ('s, (pyval \<times> pyval) list) prog" where
  "CodeQuiz_wrap_generate u generate solve =
     seq (call_user_code generate []) (\<lambda>r.
       case r of
         PList xs \<Rightarrow>
           if list_all is_dataset xs
           then comprehension
                  (\<lambda>dataset.
                     seq (CodeQuiz_clean_dataset dataset) (\<lambda>d.
                     seq (wrap_solve solve dataset) (\<lambda>answer.
                     seq (clean_clue u answer) (\<lambda>c.
                     ret (d, c))))) xs
           else if list_all is_dataset_and_clue xs
           then comprehension
                  (\<lambda>x.
                     seq (unpack_pair x) (\<lambda>(dataset, clue).
                     seq (CodeQuiz_clean_dataset dataset) (\<lambda>d.
                     seq (clean_clue u clue) (\<lambda>c.
                     ret (d, c))))) xs
           else fail_with_message
                  (Message (''generate() should return list of dataset or list of pairs ''
                            @ ''(dataset, clue) instead of {}'') [r])
       | _ \<Rightarrow>
           fail_with_message (Message ''generate() should return a list instead of {}'' [r]))"

definition CodeQuiz_generate :: "utils \<Rightarrow> 's quiz \<Rightarrow> ('s, (pyval \<times> pyval) list) prog" where
  "CodeQuiz_generate u q = CodeQuiz_wrap_generate u (raw_generate q) (raw_solve q)"

definition is_correct :: "'s quiz \<Rightarrow> pyval \<Rightarrow> pyval \<Rightarrow> ('s, bool) prog" where
  "is_correct q dataset clue =
     seq (quiz_solve q dataset) (\<lambda>answer.
     seq (quiz_check q answer clue) (\<lambda>(score, hint).
     ret (eq_1 score)))"

text \<open>
  \<^verbatim>\<open>all(itertools.starmap(f, cases))\<close>: \<^verbatim>\<open>starmap\<close> is lazy and \<^verbatim>\<open>all\<close> stops at
  the first false element, so \<open>f\<close> is not called on the cases after it.
\<close>

fun all_starmap :: "('a \<Rightarrow> 'b \<Rightarrow> ('s, bool) prog) \<Rightarrow> ('a \<times> 'b) list \<Rightarrow> ('s, bool) prog" where
  "all_starmap f [] w = (Return True, w)"
| "all_starmap f ((a, b) # cases) w =
     (case f a b w of
        (Raise e, w') \<Rightarrow> (Raise e, w')
      | (Return ok, w') \<Rightarrow> if ok then all_starmap f cases w' else (Return False, w'))"

definition CodeQuiz_self_check :: "utils \<Rightarrow> 's quiz \<Rightarrow> ('s, bool) prog" where
  "CodeQuiz_self_check u q =
     seq (CodeQuiz_generate u q) (\<lambda>test_cases. all_starmap (is_correct q) test_cases)"

section \<open>\<^verbatim>\<open>QuizModuleTest\<close>\<close>

text \<open>
  The two passes over \<^verbatim>\<open>self.tests\<close>, a list of triples (dataset, clue, reply).
  \<^verbatim>\<open>assertEqual(score, 1, msg)\<close> raises the failure exception of the test framework
  when \<^verbatim>\<open>score == 1\<close> is false.
\<close>

fun testSamples :: "'s quiz \<Rightarrow> (pyval \<times> pyval \<times> pyval) list \<Rightarrow> ('s, unit) prog" where
  "testSamples q [] w = (Return (), w)"
| "testSamples q ((dataset, clue, reply) # tests) w =
     (case quiz_check q reply clue w of
        (Raise e, w') \<Rightarrow> (Raise e, w')
      | (Return (score, hint), w') \<Rightarrow>
          if eq_1 score then testSamples q tests w'
          else (Raise (AssertionError
                        (Message ([CHR 0x0A] @ ''score(reply, clue) != 1!'' @ [CHR 0x0A]
                                  @ ''score({}, {}) == {}'') [reply, clue, score])), w'))"

fun testSolve :: "'s quiz \<Rightarrow> (pyval \<times> pyval \<times> pyval) list \<Rightarrow> ('s, unit) prog" where
  "testSolve q [] w = (Return (), w)"
| "testSolve q ((dataset, clue, reply) # tests) w =
     (case quiz_solve q dataset w of
        (Raise e, w') \<Rightarrow> (Raise e, w')
      | (Return computed_reply, w') \<Rightarrow>
          (case quiz_check q computed_reply clue w' of
             (Raise e, w'') \<Rightarrow> (Raise e, w'')
           | (Return (score, hint), w'') \<Rightarrow>
               if eq_1 score then testSolve q tests w''
               else (Raise (AssertionError
                             (Message ([CHR 0x0A] @ ''score(solve(dataset), clue) != 1!''
                                       @ [CHR 0x0A] @ ''score({}, {}) == {}'')
                                [computed_reply, clue, score])), w'')))"

text \<open>
  \<^verbatim>\<open>runTest\<close>, the test method that the framework runs. The shape of \<^verbatim>\<open>self.tests\<close>
  is asserted first, test by test, and the first assertion that fails ends the method; then
  the two passes run. \<open>assert_test\<close> is the body of the loop on one test. The message of an
  assertion is the one passed as \<^verbatim>\<open>msg\<close>; the text that the framework puts in front of
  it is not modelled.
\<close>

definition tests_msg :: message where
  "tests_msg =
     Message ''tests should be a list of 3-tuples of strings: [(dataset, clue, reply)]'' []"

fun assert_test :: "pyval \<Rightarrow> ('s, pyval \<times> pyval \<times> pyval) prog" where
  "assert_test (PTuple [dataset, clue, reply]) =
     (if \<not> is_str dataset
      then raise (AssertionError (Message ''dataset should be a string'' []))
      else if \<not> is_str reply
      then raise (AssertionError (Message ''reply should be a string'' []))
      else ret (dataset, clue, reply))"
| "assert_test test = raise (AssertionError tests_msg)"

definition runTest :: "'s quiz \<Rightarrow> pyval \<Rightarrow> ('s, unit) prog" where
  "runTest q tests =
     (case tests of
        PList ts \<Rightarrow>
          seq (comprehension assert_test ts) (\<lambda>triples.
          seq (testSamples q triples) (\<lambda>_.
          testSolve q triples))
      | _ \<Rightarrow> raise (AssertionError tests_msg))"

text \<open>
  Modelled from the spec: the run of a test under the external test framework. Its code is
  not in \<^verbatim>\<open>quiz.py\<close>: \<^verbatim>\<open>QuizModuleTest\<close> inherits \<^verbatim>\<open>run\<close> from
  \<^verbatim>\<open>unittest.TestCase\<close>. The test method runs under the exception handling of the
  framework (section 5 of the specification): an exception that leaves the test method is
  caught there and reported with the test, and the run itself returns. In
  \<^verbatim>\<open>unittest\<close> the report is a failure for the failure exception \<open>AssertionError\<close>
  and an error for every other exception, \<open>SystemExit\<close> included; a
  \<open>KeyboardInterrupt\<close> alone is let through.
\<close>

datatype test_report = Success | Failure exn | Error exn

definition TestCase_run :: "('s, unit) prog \<Rightarrow> ('s, test_report) prog" where
  "TestCase_run testMethod w =
     (case testMethod w of
        (Return x, w') \<Rightarrow> (Return Success, w')
      | (Raise e, w') \<Rightarrow>
          (case e of
             KeyboardInterrupt \<Rightarrow> (Raise e, w')
           | AssertionError m \<Rightarrow> (Return (Failure e), w')
           | _ \<Rightarrow> (Return (Error e), w')))"

section \<open>Notions of the specification\<close>

text \<open>
  The scores of the specification: a real number (for Python, a bool, an int, a float or
  an instance of another class that is a \<^verbatim>\<open>numbers.Real\<close>, such as a
  \<^verbatim>\<open>fractions.Fraction\<close>) in the closed interval from 0 to 1.
\<close>

fun score_in_range :: "pyval \<Rightarrow> bool" where
  "score_in_range (PBool b) = True"
| "score_in_range (PInt i) = (0 \<le> i \<and> i \<le> 1)"
| "score_in_range (PFloat (Finite r)) = (0 \<le> r \<and> r \<le> 1)"
| "score_in_range (PReal c (Finite r)) = (0 \<le> r \<and> r \<le> 1)"
| "score_in_range _ = False"

fun is_tuple :: "pyval \<Rightarrow> bool" where
  "is_tuple (PTuple xs) = True"
| "is_tuple _ = False"

text \<open>The outcome of a call of \<^verbatim>\<open>fail_with_message\<close>: the message on the error stream
  and the exit with status -1.\<close>

definition fatal :: "message \<Rightarrow> 's world \<Rightarrow> 'a res \<times> 's world" where
  "fatal m w = (Raise (SystemExit (- 1)), (fst w, snd w @ [Printed m]))"


fun encode_str :: "pyval \<Rightarrow> exn + string" where
  "encode_str (PStr x) = Inr x"
| "encode_str v = Inl TypeError"

definition decode_str :: "string \<Rightarrow> exn + pyval" where
  "decode_str b = Inr (PStr b)"


definition utils_str :: utils where
  "utils_str = \<lparr>encode = encode_str, decode = decode_str\<rparr>"

text \<open>
  The module of scenario A: \<^verbatim>\<open>solve()\<close> returns \<^verbatim>\<open>"42"\<close> and \<^verbatim>\<open>check(reply)\<close>
  returns 1 when the reply is \<^verbatim>\<open>"42"\<close> and 0 otherwise; the state counts the calls.
\<close>

definition solve_42 :: "nat body" where
  "solve_42 args s =
     (case args of [] \<Rightarrow> (Inr (PStr ''42''), Suc s) | _ \<Rightarrow> (Inl TypeError, s))"

definition check_42 :: "nat body" where
  "check_42 args s =
     (case args of
        [reply] \<Rightarrow> (Inr (PInt (if reply = PStr ''42'' then 1 else 0)), Suc s)
      | _ \<Rightarrow> (Inl TypeError, s))"

definition quiz_42 :: "nat quiz" where
  "quiz_42 =
     \<lparr>raw_generate =
        (\<lambda>args s. case args of
                     [] \<Rightarrow> (Inr (PTuple [PDict [], PStr '''']), s)
                   | _ \<Rightarrow> (Inl TypeError, s)),
      raw_solve =
        (\<lambda>args s. case args of
                     [dataset] \<Rightarrow> solve_42 [] s
                   | _ \<Rightarrow> (Inl TypeError, s)),
      raw_check =
        (\<lambda>args s. case args of
                     [reply, clue] \<Rightarrow> check_42 [reply] s
                   | _ \<Rightarrow> (Inl TypeError, s))\<rparr>"

text \<open>
  Every case of a list of (dataset, clue) pairs scores 1: run in order from the world \<open>w\<close>,
  each wrapped \<^verbatim>\<open>solve\<close> returns an answer, the wrapped \<^verbatim>\<open>check\<close> of that answer
  and the clue returns a score equal to 1, and the run ends in the world \<open>w'\<close>.
\<close>

fun every_case_scores_1 ::
  "'s quiz \<Rightarrow> (pyval \<times> pyval) list \<Rightarrow> 's world \<Rightarrow> 's world \<Rightarrow> bool" where
  "every_case_scores_1 q [] w w' = (w' = w)"
| "every_case_scores_1 q ((dataset, clue) # cases) w w' =
     (case quiz_solve q dataset w of
        (Raise e, w1) \<Rightarrow> False
      | (Return answer, w1) \<Rightarrow>
          (case quiz_check q answer clue w1 of
             (Raise e, w2) \<Rightarrow> False
           | (Return (score, hint), w2) \<Rightarrow>
               eq_1 score \<and> every_case_scores_1 q cases w2 w'))"

text \<open>
  A module for a \<^verbatim>\<open>CodeQuiz\<close>: \<^verbatim>\<open>generate()\<close> returns the datasets \<^verbatim>\<open>["a", "b"]\<close>,
  \<^verbatim>\<open>solve(dataset)\<close> returns the dataset and \<^verbatim>\<open>check(reply, clue)\<close> returns whether
  reply and clue are the same string; the state counts the calls.
\<close>

definition generate_ab :: "nat body" where
  "generate_ab args s =
     (case args of [] \<Rightarrow> (Inr (PList [PStr ''a'', PStr ''b'']), Suc s) | _ \<Rightarrow> (Inl TypeError, s))"

definition solve_echo :: "nat body" where
  "solve_echo args s =
     (case args of [dataset] \<Rightarrow> (Inr dataset, Suc s) | _ \<Rightarrow> (Inl TypeError, s))"

definition check_same :: "nat body" where
  "check_same args s =
     (case args of
        [reply, clue] \<Rightarrow> (Inr (PBool (reply = clue)), Suc s)
      | _ \<Rightarrow> (Inl TypeError, s))"

definition code_quiz_ab :: "nat quiz" where
  "code_quiz_ab = \<lparr>raw_generate = generate_ab, raw_solve = solve_echo, raw_check = check_same\<rparr>"


text \<open>A \<^verbatim>\<open>generate\<close> that takes no argument and returns the given value.\<close>

definition generate_const :: "pyval \<Rightarrow> nat body" where
  "generate_const v args s =
     (case args of [] \<Rightarrow> (Inr v, Suc s) | _ \<Rightarrow> (Inl TypeError, s))"

text \<open>
  Modules whose \<^verbatim>\<open>check\<close>, or whose \<^verbatim>\<open>solve\<close>, raises a \<open>ValueError\<close> whenever it
  is called.
\<close>

definition check_raises :: "nat body" where
  "check_raises args s = (Inl ValueError, Suc s)"

definition solve_raises :: "nat body" where
  "solve_raises args s = (Inl ValueError, Suc s)"

definition quiz_check_raises :: "nat quiz" where
  "quiz_check_raises =
     \<lparr>raw_generate = generate_ab, raw_solve = solve_echo, raw_check = check_raises\<rparr>"

definition quiz_solve_raises :: "nat quiz" where
  "quiz_solve_raises =
     \<lparr>raw_generate = generate_ab, raw_solve = solve_raises, raw_check = check_same\<rparr>"

text \<open>
  A module for a \<^verbatim>\<open>CodeQuiz\<close> whose \<^verbatim>\<open>generate()\<close> returns three pairs of a
  dataset and a clue, the clue of the second being wrong for \<^verbatim>\<open>solve\<close> and
  \<^verbatim>\<open>check\<close> above.
\<close>

definition code_quiz_wrong_clue :: "nat quiz" where
  "code_quiz_wrong_clue =
     \<lparr>raw_generate =
        generate_const (PList [PTuple [PStr ''a'', PStr ''a''], PTuple [PStr ''b'', PStr ''x''],
                               PTuple [PStr ''c'', PStr ''c'']]),
      raw_solve = solve_echo, raw_check = check_same\<rparr>"

text \<open>
  The tuple that a test (dataset, clue, reply) is in the list \<^verbatim>\<open>tests\<close> of a module,
  and the tests that \<^verbatim>\<open>runTest\<close> lets through: dataset and reply are strings.
\<close>

definition test_tuple :: "pyval \<times> pyval \<times> pyval \<Rightarrow> pyval" where
  "test_tuple t = (case t of (dataset, clue, reply) \<Rightarrow> PTuple [dataset, clue, reply])"

definition well_shaped :: "(pyval \<times> pyval \<times> pyval) list \<Rightarrow> bool" where
  "well_shaped tests = list_all (\<lambda>(dataset, clue, reply). is_str dataset \<and> is_str reply) tests"

text \<open>
  The world after \<^verbatim>\<open>call_user_code\<close> has converted the exception \<open>e\<close> that a user
  function raised in the world \<open>w\<close>, leaving the state \<open>s'\<close>: the trace and the message
  are on the error stream.
\<close>

definition after_fault :: "exn \<Rightarrow> 's \<Rightarrow> 's world \<Rightarrow> 's world" where
  "after_fault e s' w =
     (s', snd w @ [Traceback e, Printed (Message ''Quiz failed with exception!'' [])])"

text \<open>
  A module whose \<^verbatim>\<open>check\<close> returns \<^verbatim>\<open>True\<close> the first time it is called and raises a
  \<open>ValueError\<close> every time after.
\<close>

definition check_once :: "nat body" where
  "check_once args s = (if s = 0 then (Inr (PBool True), Suc s) else (Inl ValueError, Suc s))"

definition quiz_check_once :: "nat quiz" where
  "quiz_check_once =
     \<lparr>raw_generate = generate_ab, raw_solve = solve_echo, raw_check = check_once\<rparr>"

definition generate_raises :: "nat body" where
  "generate_raises args s = (Inl ValueError, Suc s)"

definition quiz_generate_raises :: "nat quiz" where
  "quiz_generate_raises =
     \<lparr>raw_generate = generate_raises, raw_solve = solve_echo, raw_check = check_same\<rparr>"

section \<open>Facts about sequencing\<close>

lemma seq_Return_iff:
  "seq m f w = (Return b, w'') \<longleftrightarrow> (\<exists>a w'. m w = (Return a, w') \<and> f a w' = (Return b, w''))"
  by (cases "m w"; cases "fst (m w)") (auto simp: seq_def)

lemma seq_Return_eq: "m w = (Return a, w') \<Longrightarrow> seq m f w = f a w'"
  by (simp add: seq_def)

lemma seq_Raise_eq: "m w = (Raise e, w') \<Longrightarrow> seq m f w = (Raise e, w')"
  by (simp add: seq_def)


lemma seq_fail: "seq (fail_with_message m) f w = fail_with_message m w"
  by (simp add: seq_def fail_with_message_def)

lemma seq_raise: "seq (raise e) f w = raise e w"
  by (simp add: seq_def raise_def)

lemma fail_not_Return: "fail_with_message m w \<noteq> (Return v, w')"
  by (simp add: fail_with_message_def)

section \<open>Facts about the cleaners and the wrappers\<close>

lemma clean_score_cases:
  "clean_score v w =
     (if score_in_range v then (Return v, w)
      else (Raise (SystemExit (- 1)),
            (fst w, snd w @ [Printed (Message ''score should be a number in range [0, 1]'' [])])))"
proof (cases v)
  case (PFloat x)
  then show ?thesis
    by (cases x) (auto simp: clean_score_def ret_def fail_with_message_def)
next
  case (PReal c x)
  then show ?thesis
    by (cases x) (auto simp: clean_score_def ret_def fail_with_message_def)
qed (auto simp: clean_score_def ret_def fail_with_message_def)

lemma wrap_check_returned:
  "call_user_code check [reply, clue] w = (Return r, w1) \<Longrightarrow>
   wrap_check check reply clue w =
     seq (check_result r) (\<lambda>(score_value, hint).
     seq (clean_score score_value) (\<lambda>score_value'.
     seq (clean_hint hint) (\<lambda>hint'.
     ret (score_value', hint')))) w1"
  unfolding wrap_check_def by (rule seq_Return_eq)

lemma clean_hint_cases:
  "clean_hint v w =
     (if is_str v then (Return v, w)
      else (Raise (SystemExit (- 1)),
            (fst w, snd w @ [Printed (Message ''hint should be a str'' [])])))"
  by (simp add: clean_hint_def ret_def fail_with_message_def)

lemma clean_pair_Return:
  assumes "seq (clean_score s) (\<lambda>s'. seq (clean_hint h) (\<lambda>h'. ret (s', h'))) w1
           = (Return (sc, hh), w')"
  shows "sc = s \<and> hh = h \<and> w' = w1 \<and> score_in_range s \<and> is_str h"
  using assms
  by (auto simp: seq_Return_iff clean_score_cases clean_hint_cases ret_def split: if_splits)

lemma wrap_check_score:
  assumes "wrap_check check reply clue w = (Return (sc, h), w')"
  shows "score_in_range sc"
proof -
  from assms obtain r w1 where call: "call_user_code check [reply, clue] w = (Return r, w1)"
    unfolding wrap_check_def seq_Return_iff by blast
  from assms[unfolded wrap_check_returned[OF call] seq_Return_iff]
  obtain s0 h0 w2 where
    "seq (clean_score s0) (\<lambda>s'. seq (clean_hint h0) (\<lambda>h'. ret (s', h'))) w2
     = (Return (sc, h), w')"
    by (auto split: prod.splits)
  from clean_pair_Return[OF this] show ?thesis by simp
qed

lemma CodeQuiz_wrap_generate_returned:
  "call_user_code generate [] w = (Return r, w1) \<Longrightarrow>
   CodeQuiz_wrap_generate u generate solve w =
     (case r of
         PList xs \<Rightarrow>
           if list_all is_dataset xs
           then comprehension
                  (\<lambda>dataset.
                     seq (CodeQuiz_clean_dataset dataset) (\<lambda>d.
                     seq (wrap_solve solve dataset) (\<lambda>answer.
                     seq (clean_clue u answer) (\<lambda>c.
                     ret (d, c))))) xs
           else if list_all is_dataset_and_clue xs
           then comprehension
                  (\<lambda>x.
                     seq (unpack_pair x) (\<lambda>(dataset, clue).
                     seq (CodeQuiz_clean_dataset dataset) (\<lambda>d.
                     seq (clean_clue u clue) (\<lambda>c.
                     ret (d, c))))) xs
           else fail_with_message
                  (Message (''generate() should return list of dataset or list of pairs ''
                            @ ''(dataset, clue) instead of {}'') [r])
       | _ \<Rightarrow>
           fail_with_message (Message ''generate() should return a list instead of {}'' [r])) w1"
  unfolding CodeQuiz_wrap_generate_def by (rule seq_Return_eq)

lemma clean_pair_cases:
  "seq (clean_score s) (\<lambda>s'. seq (clean_hint h) (\<lambda>h'. ret (s', h'))) w =
     (if \<not> score_in_range s
      then fatal (Message ''score should be a number in range [0, 1]'' []) w
      else if \<not> is_str h then fatal (Message ''hint should be a str'' []) w
      else (Return (s, h), w))"
  by (simp add: seq_def clean_score_cases clean_hint_cases ret_def fatal_def)

lemma check_result_cases:
  "check_result r w =
     (case r of
        PTuple xs \<Rightarrow>
          if length xs = 2 then (Return (xs ! 0, xs ! 1), w)
          else fatal (Message (''check() returned a tuple but it's length is not 2.'' @ [CHR 0x0A]
                 @ ''check should return either a score or a (score, hit) tuple.'') []) w
      | _ \<Rightarrow> (Return (r, PStr ''''), w))"
proof (cases r)
  case (PTuple xs)
  have "unpack2 xs = (if length xs = 2 then Some (xs ! 0, xs ! 1) else None)"
    by (cases xs rule: unpack2.cases) auto
  with PTuple show ?thesis
    by (simp add: check_result_def ret_def fatal_def fail_with_message_def)
qed (simp_all add: check_result_def ret_def)

lemma clean_answer_cases:
  "clean_answer v w =
     (if is_str v then (Return v, w)
      else fatal (Message ''answer should be a str instead of {}'' [v]) w)"
  by (simp add: clean_answer_def ret_def fail_with_message_def fatal_def)

lemma clean_dataset_cases:
  "clean_dataset v w =
     (if is_dict v then (Return v, w)
      else if is_str v \<or> is_bytes v then (Return (PDict [(PStr ''file'', v)]), w)
      else fatal (Message ''dataset should be one of (dict, str, bytes) instead of {}'' [v]) w)"
  by (cases v) (simp_all add: clean_dataset_def ret_def fail_with_message_def fatal_def)

lemma CodeQuiz_clean_dataset_cases:
  "CodeQuiz_clean_dataset v w =
     (if is_str v then (Return v, w)
      else fatal (Message ''dataset should be a str instead of {}'' [v]) w)"
  by (simp add: CodeQuiz_clean_dataset_def ret_def fail_with_message_def fatal_def)

lemma DatasetQuiz_init_no_generate:
  "DatasetQuiz_init (Value PNone) solve_fun check_fun w =
     (case check_signatures [(''solve'', solve_fun, 0), (''check'', check_fun, 1)] w of
        (Raise e, w') \<Rightarrow> (Raise e, w')
      | (Return x, w') \<Rightarrow>
          (Return \<lparr>raw_generate =
                    (\<lambda>args s. case args of
                                 [] \<Rightarrow> (Inr (PTuple [PDict [], PStr '''']), s)
                               | _ \<Rightarrow> (Inl TypeError, s)),
                  raw_solve =
                    (\<lambda>args s. case args of
                                 [dataset] \<Rightarrow> call solve_fun [] s
                               | _ \<Rightarrow> (Inl TypeError, s)),
                  raw_check =
                    (\<lambda>args s. case args of
                                 [reply, clue] \<Rightarrow> call check_fun [reply] s
                               | _ \<Rightarrow> (Inl TypeError, s))\<rparr>, w'))"
  by (simp add: DatasetQuiz_init_def seq_def ret_def split: prod.splits res.splits)

lemma is_correct_unfold:
  "is_correct q dataset clue w =
     (case quiz_solve q dataset w of
        (Raise e, w1) \<Rightarrow> (Raise e, w1)
      | (Return answer, w1) \<Rightarrow>
          (case quiz_check q answer clue w1 of
             (Raise e, w2) \<Rightarrow> (Raise e, w2)
           | (Return (score, hint), w2) \<Rightarrow> (Return (eq_1 score), w2)))"
  by (simp add: is_correct_def seq_def ret_def split: prod.splits res.splits)

lemma all_starmap_True:
  "all_starmap (is_correct q) cases w = (Return True, w') \<longleftrightarrow> every_case_scores_1 q cases w w'"
proof (induction cases arbitrary: w)
  case Nil
  show ?case by auto
next
  case (Cons c cases)
  obtain dataset clue where c: "c = (dataset, clue)" by (cases c)
  show ?case
    unfolding c
    by (auto simp: is_correct_unfold[of q dataset clue] Cons.IH split: prod.splits res.splits)
qed

lemma all_starmap_False:
  assumes "all_starmap (is_correct q) cases w = (Return False, w')"
  shows "\<not> every_case_scores_1 q cases w w''"
proof
  assume "every_case_scores_1 q cases w w''"
  then have "all_starmap (is_correct q) cases w = (Return True, w'')"
    by (simp add: all_starmap_True)
  with assms show False by simp
qed

lemma every_case_Cons:
  "every_case_scores_1 q ((dataset, clue) # cases) w w' \<longleftrightarrow>
     (\<exists>answer w1 score hint w2.
         quiz_solve q dataset w = (Return answer, w1)
       \<and> quiz_check q answer clue w1 = (Return (score, hint), w2)
       \<and> eq_1 score \<and> every_case_scores_1 q cases w2 w')"
proof -
  obtain r w1 where sv: "quiz_solve q dataset w = (r, w1)"
    by (cases "quiz_solve q dataset w")
  show ?thesis
  proof (cases r)
    case (Raise e)
    with sv show ?thesis by simp
  next
    case (Return answer)
    obtain r2 w2 where k: "quiz_check q answer clue w1 = (r2, w2)"
      by (cases "quiz_check q answer clue w1")
    show ?thesis
    proof (cases r2)
      case (Raise e)
      with sv \<open>r = Return answer\<close> k show ?thesis by simp
    next
      case (Return sh)
      obtain score hint where sh: "sh = (score, hint)" by (cases sh)
      show ?thesis using sv \<open>r = Return answer\<close> k Return sh by (cases w2) simp
    qed
  qed
qed

lemma all_starmap_prefix:
  "every_case_scores_1 q pre w w2 \<Longrightarrow>
   all_starmap (is_correct q) (pre @ rest) w = all_starmap (is_correct q) rest w2"
proof (induction pre arbitrary: w)
  case Nil
  then show ?case by simp
next
  case (Cons c pre)
  obtain dataset clue where c: "c = (dataset, clue)" by (cases c)
  from Cons.prems obtain answer w1 score hint w3 where
    s: "quiz_solve q dataset w = (Return answer, w1)" and
    k: "quiz_check q answer clue w1 = (Return (score, hint), w3)" and
    e: "eq_1 score" and rest: "every_case_scores_1 q pre w3 w2"
    unfolding c every_case_Cons by blast
  have "is_correct q dataset clue w = (Return True, w3)"
    using s k e by (simp add: is_correct_unfold[of q dataset clue])
  then show ?case
    unfolding c using Cons.IH[OF rest] by simp
qed

lemma all_starmap_False_iff:
  "all_starmap (is_correct q) cases w = (Return False, w') \<longleftrightarrow>
     (\<exists>pre dataset clue post w2 answer w3 score hint.
         cases = pre @ (dataset, clue) # post
       \<and> every_case_scores_1 q pre w w2
       \<and> quiz_solve q dataset w2 = (Return answer, w3)
       \<and> quiz_check q answer clue w3 = (Return (score, hint), w')
       \<and> \<not> eq_1 score)"
  (is "?lhs cases w \<longleftrightarrow> ?rhs cases w")
proof
  show "?lhs cases w \<Longrightarrow> ?rhs cases w"
  proof (induction cases arbitrary: w)
    case Nil
    then show ?case by simp
  next
    case (Cons c cases)
    obtain dataset clue where c: "c = (dataset, clue)" by (cases c)
    from Cons.prems obtain ok w1 where
      ic: "is_correct q dataset clue w = (Return ok, w1)"
      unfolding c by (auto split: prod.splits res.splits)
    then obtain answer w0 score hint where
      s: "quiz_solve q dataset w = (Return answer, w0)" and
      k: "quiz_check q answer clue w0 = (Return (score, hint), w1)" and
      ok: "ok = eq_1 score"
      by (auto simp: is_correct_unfold[of q dataset clue] split: prod.splits res.splits)
    show ?case
    proof (cases ok)
      case True
      with Cons.prems ic have "all_starmap (is_correct q) cases w1 = (Return False, w')"
        unfolding c by simp
      from Cons.IH[OF this] obtain pre d cl post w2 a w3 sc h where
        cs: "cases = pre @ (d, cl) # post" and
        ev: "every_case_scores_1 q pre w1 w2" and
        s2: "quiz_solve q d w2 = (Return a, w3)" and
        k2: "quiz_check q a cl w3 = (Return (sc, h), w')" and
        ne: "\<not> eq_1 sc"
        by blast
      have "c # cases = ((dataset, clue) # pre) @ (d, cl) # post"
        using cs c by simp
      moreover have "every_case_scores_1 q ((dataset, clue) # pre) w w2"
        using s k ok True ev by simp
      ultimately show ?thesis using s2 k2 ne by blast
    next
      case False
      with Cons.prems ic have w': "w' = w1"
        unfolding c by simp
      have "c # cases = [] @ (dataset, clue) # cases" using c by simp
      moreover have "every_case_scores_1 q [] w w" by simp
      ultimately show ?thesis using s k ok False w' by blast
    qed
  qed
next
  assume "?rhs cases w"
  then obtain pre dataset clue post w2 answer w3 score hint where
    cs: "cases = pre @ (dataset, clue) # post" and
    ev: "every_case_scores_1 q pre w w2" and
    s: "quiz_solve q dataset w2 = (Return answer, w3)" and
    k: "quiz_check q answer clue w3 = (Return (score, hint), w')" and
    ne: "\<not> eq_1 score"
    by blast
  have "is_correct q dataset clue w2 = (Return False, w')"
    using s k ne by (simp add: is_correct_unfold[of q dataset clue])
  then have "all_starmap (is_correct q) ((dataset, clue) # post) w2 = (Return False, w')"
    by simp
  then show "?lhs cases w"
    unfolding cs all_starmap_prefix[OF ev] .
qed

lemma eq_1_cases:
  "eq_1 s \<longleftrightarrow>
     s = PBool True \<or> s = PInt 1 \<or> s = PFloat (Finite 1) \<or> (\<exists>c. s = PReal c (Finite 1))"
  by (cases s) (auto simp: eq_1_def)






lemma call_user_code_fault:
  "f args (fst w) = (Inl e, s') \<Longrightarrow>
   call_user_code f args w =
     fatal (Message ''Quiz failed with exception!'' []) (s', snd w @ [Traceback e])"
  by (simp add: call_user_code_def fatal_def fail_with_message_def)

lemma quiz_check_fault:
  "raw_check q [reply, clue] (fst w) = (Inl e, s') \<Longrightarrow>
   quiz_check q reply clue w =
     fatal (Message ''Quiz failed with exception!'' []) (s', snd w @ [Traceback e])"
  by (simp add: quiz_check_def wrap_check_def seq_def call_user_code_fault fatal_def)

lemma quiz_solve_fault:
  "raw_solve q [unwrap_file dataset] (fst w) = (Inl e, s') \<Longrightarrow>
   quiz_solve q dataset w =
     fatal (Message ''Quiz failed with exception!'' []) (s', snd w @ [Traceback e])"
  by (simp add: quiz_solve_def wrap_solve_def seq_def call_user_code_fault fatal_def)

lemma testSamples_append:
  "testSamples q (pre @ rest) w =
     (case testSamples q pre w of
        (Return x, w1) \<Rightarrow> testSamples q rest w1
      | (Raise e, w1) \<Rightarrow> (Raise e, w1))"
proof (induction pre arbitrary: w)
  case Nil
  show ?case by simp
next
  case (Cons t pre)
  obtain dataset clue reply where t: "t = (dataset, clue, reply)" by (cases t)
  show ?case
    unfolding t by (simp add: Cons.IH split: prod.splits res.splits)
qed

lemma testSolve_append:
  "testSolve q (pre @ rest) w =
     (case testSolve q pre w of
        (Return x, w1) \<Rightarrow> testSolve q rest w1
      | (Raise e, w1) \<Rightarrow> (Raise e, w1))"
proof (induction pre arbitrary: w)
  case Nil
  show ?case by simp
next
  case (Cons t pre)
  obtain dataset clue reply where t: "t = (dataset, clue, reply)" by (cases t)
  show ?case
    unfolding t by (simp add: Cons.IH split: prod.splits res.splits)
qed
lemma DatasetQuiz_generate_fault:
  "raw_generate q [] (fst w) = (Inl e, s') \<Longrightarrow>
   DatasetQuiz_generate u q w =
     fatal (Message ''Quiz failed with exception!'' []) (s', snd w @ [Traceback e])"
  by (simp add: DatasetQuiz_generate_def wrap_generate_def seq_def call_user_code_fault fatal_def)

lemma CodeQuiz_generate_fault:
  "raw_generate q [] (fst w) = (Inl e, s') \<Longrightarrow>
   CodeQuiz_generate u q w =
     fatal (Message ''Quiz failed with exception!'' []) (s', snd w @ [Traceback e])"
  by (simp add: CodeQuiz_generate_def CodeQuiz_wrap_generate_def seq_def call_user_code_fault
        fatal_def)

lemma fatal_after_fault:
  "fatal (Message ''Quiz failed with exception!'' []) (s', snd w @ [Traceback e]) =
     (Raise (SystemExit (- 1)), after_fault e s' w)"
  by (simp add: fatal_def after_fault_def)

lemma TestCase_run_exit:
  "testMethod w = (Raise (SystemExit n), w') \<Longrightarrow>
   TestCase_run testMethod w = (Return (Error (SystemExit n)), w')"
  by (simp add: TestCase_run_def)

lemma assert_tests_shaped:
  "well_shaped tests \<Longrightarrow> comprehension assert_test (map test_tuple tests) w = (Return tests, w)"
proof (induction tests)
  case Nil
  show ?case by simp
next
  case (Cons t tests)
  obtain dataset clue reply where t: "t = (dataset, clue, reply)" by (cases t)
  from Cons.prems have hd: "is_str dataset" "is_str reply" and tl: "well_shaped tests"
    by (simp_all add: well_shaped_def t)
  have "assert_test (test_tuple t) w = (Return t, w)"
    using hd by (simp add: t test_tuple_def ret_def)
  with Cons.IH[OF tl] show ?case by simp
qed

lemma runTest_shaped:
  "well_shaped tests \<Longrightarrow>
   runTest q (PList (map test_tuple tests)) w =
     seq (testSamples q tests) (\<lambda>_. testSolve q tests) w"
  by (simp add: runTest_def seq_Return_eq[OF assert_tests_shaped])

lemma testSamples_fault:
  assumes "testSamples q pre w = (Return (), w1)"
    and "raw_check q [reply, clue] (fst w1) = (Inl e, s')"
  shows "testSamples q (pre @ (dataset, clue, reply) # post) w =
     (Raise (SystemExit (- 1)), after_fault e s' w1)"
  using assms
  by (simp add: testSamples_append quiz_check_fault fatal_after_fault)

lemma testSolve_solve_fault:
  assumes "testSolve q pre w = (Return (), w1)"
    and "raw_solve q [unwrap_file dataset] (fst w1) = (Inl e, s')"
  shows "testSolve q (pre @ (dataset, clue, reply) # post) w =
     (Raise (SystemExit (- 1)), after_fault e s' w1)"
  using assms
  by (simp add: testSolve_append quiz_solve_fault fatal_after_fault)

lemma testSolve_check_fault:
  assumes "testSolve q pre w = (Return (), w1)"
    and "quiz_solve q dataset w1 = (Return computed_reply, w2)"
    and "raw_check q [computed_reply, clue] (fst w2) = (Inl e, s')"
  shows "testSolve q (pre @ (dataset, clue, reply) # post) w =
     (Raise (SystemExit (- 1)), after_fault e s' w2)"
  using assms
  by (simp add: testSolve_append quiz_check_fault fatal_after_fault)

section \<open>The claims\<close>

text \<open>
  C1. A fault of a user function is converted by \<^verbatim>\<open>call_user_code\<close>: the trace and the
  message \<^verbatim>\<open>Quiz failed with exception!\<close> are printed and \<^verbatim>\<open>sys.exit(-1)\<close> raises
  \<open>SystemExit\<close>. In the passes of \<^verbatim>\<open>QuizModuleTest\<close>, run by the test framework (as
  \<^verbatim>\<open>runTest\<close> on a well-shaped list of tests, or one pass alone), this exception leaves
  the test method and is caught by the framework: when the cases before have passed and
  \<^verbatim>\<open>check\<close> or \<^verbatim>\<open>solve\<close> raises on a case, the run of the test returns with the
  test reported as an error, so that the process goes on. Outside of the test framework, in
  the wrapped \<^verbatim>\<open>generate\<close>, \<^verbatim>\<open>solve\<close> and \<^verbatim>\<open>check\<close>, the same conversion ends
  in \<open>SystemExit\<close> with status -1, which nothing catches.
\<close>

theorem user_fault_reported:
  "(testSamples q pre w = (Return (), w1)
        \<and> raw_check q [reply, clue] (fst w1) = (Inl e, s') \<longrightarrow>
      TestCase_run (testSamples q (pre @ (dataset, clue, reply) # post)) w =
        (Return (Error (SystemExit (- 1))), after_fault e s' w1))
   \<and> (testSolve q pre w = (Return (), w1)
        \<and> raw_solve q [unwrap_file dataset] (fst w1) = (Inl e, s') \<longrightarrow>
      TestCase_run (testSolve q (pre @ (dataset, clue, reply) # post)) w =
        (Return (Error (SystemExit (- 1))), after_fault e s' w1))
   \<and> (testSolve q pre w = (Return (), w1)
        \<and> quiz_solve q dataset w1 = (Return computed_reply, w2)
        \<and> raw_check q [computed_reply, clue] (fst w2) = (Inl e, s') \<longrightarrow>
      TestCase_run (testSolve q (pre @ (dataset, clue, reply) # post)) w =
        (Return (Error (SystemExit (- 1))), after_fault e s' w2))
   \<and> (well_shaped (pre @ (dataset, clue, reply) # post)
        \<and> testSamples q pre w = (Return (), w1)
        \<and> raw_check q [reply, clue] (fst w1) = (Inl e, s') \<longrightarrow>
      TestCase_run (runTest q (PList (map test_tuple (pre @ (dataset, clue, reply) # post)))) w =
        (Return (Error (SystemExit (- 1))), after_fault e s' w1))
   \<and> (well_shaped (pre @ (dataset, clue, reply) # post)
        \<and> testSamples q (pre @ (dataset, clue, reply) # post) w = (Return (), w0)
        \<and> testSolve q pre w0 = (Return (), w1)
        \<and> raw_solve q [unwrap_file dataset] (fst w1) = (Inl e, s') \<longrightarrow>
      TestCase_run (runTest q (PList (map test_tuple (pre @ (dataset, clue, reply) # post)))) w =
        (Return (Error (SystemExit (- 1))), after_fault e s' w1))
   \<and> (well_shaped (pre @ (dataset, clue, reply) # post)
        \<and> testSamples q (pre @ (dataset, clue, reply) # post) w = (Return (), w0)
        \<and> testSolve q pre w0 = (Return (), w1)
        \<and> quiz_solve q dataset w1 = (Return computed_reply, w2)
        \<and> raw_check q [computed_reply, clue] (fst w2) = (Inl e, s') \<longrightarrow>
      TestCase_run (runTest q (PList (map test_tuple (pre @ (dataset, clue, reply) # post)))) w =
        (Return (Error (SystemExit (- 1))), after_fault e s' w2))
   \<and> (raw_generate q [] (fst w) = (Inl e, s') \<longrightarrow>
        DatasetQuiz_generate u q w = (Raise (SystemExit (- 1)), after_fault e s' w)
        \<and> CodeQuiz_generate u q w = (Raise (SystemExit (- 1)), after_fault e s' w))
   \<and> (raw_solve q [unwrap_file dataset] (fst w) = (Inl e, s') \<longrightarrow>
        quiz_solve q dataset w = (Raise (SystemExit (- 1)), after_fault e s' w))
   \<and> (raw_check q [reply, clue] (fst w) = (Inl e, s') \<longrightarrow>
        quiz_check q reply clue w = (Raise (SystemExit (- 1)), after_fault e s' w))"
proof -
  let ?tests = "pre @ (dataset, clue, reply) # post"
  let ?error = "Return (Error (SystemExit (- 1)))"
  have a: "testSamples q pre w = (Return (), w1)
        \<and> raw_check q [reply, clue] (fst w1) = (Inl e, s') \<longrightarrow>
      TestCase_run (testSamples q ?tests) w = (?error, after_fault e s' w1)"
    by (simp add: TestCase_run_exit[OF testSamples_fault])
  have b: "testSolve q pre w = (Return (), w1)
        \<and> raw_solve q [unwrap_file dataset] (fst w1) = (Inl e, s') \<longrightarrow>
      TestCase_run (testSolve q ?tests) w = (?error, after_fault e s' w1)"
    by (simp add: TestCase_run_exit[OF testSolve_solve_fault])
  have c: "testSolve q pre w = (Return (), w1)
        \<and> quiz_solve q dataset w1 = (Return computed_reply, w2)
        \<and> raw_check q [computed_reply, clue] (fst w2) = (Inl e, s') \<longrightarrow>
      TestCase_run (testSolve q ?tests) w = (?error, after_fault e s' w2)"
    by (simp add: TestCase_run_exit[OF testSolve_check_fault])
  have d: "well_shaped ?tests
        \<and> testSamples q pre w = (Return (), w1)
        \<and> raw_check q [reply, clue] (fst w1) = (Inl e, s') \<longrightarrow>
      TestCase_run (runTest q (PList (map test_tuple ?tests))) w =
        (?error, after_fault e s' w1)"
  proof (intro impI, elim conjE)
    assume shaped: "well_shaped ?tests"
      and pre: "testSamples q pre w = (Return (), w1)"
      and fault: "raw_check q [reply, clue] (fst w1) = (Inl e, s')"
    have "runTest q (PList (map test_tuple ?tests)) w =
        (Raise (SystemExit (- 1)), after_fault e s' w1)"
      unfolding runTest_shaped[OF shaped]
      by (rule seq_Raise_eq) (rule testSamples_fault[OF pre fault])
    then show "TestCase_run (runTest q (PList (map test_tuple ?tests))) w =
        (?error, after_fault e s' w1)"
      by (rule TestCase_run_exit)
  qed
  have e: "well_shaped ?tests
        \<and> testSamples q ?tests w = (Return (), w0)
        \<and> testSolve q pre w0 = (Return (), w1)
        \<and> raw_solve q [unwrap_file dataset] (fst w1) = (Inl e, s') \<longrightarrow>
      TestCase_run (runTest q (PList (map test_tuple ?tests))) w =
        (?error, after_fault e s' w1)"
  proof (intro impI, elim conjE)
    assume shaped: "well_shaped ?tests"
      and samples: "testSamples q ?tests w = (Return (), w0)"
      and pre: "testSolve q pre w0 = (Return (), w1)"
      and fault: "raw_solve q [unwrap_file dataset] (fst w1) = (Inl e, s')"
    have "runTest q (PList (map test_tuple ?tests)) w =
        (Raise (SystemExit (- 1)), after_fault e s' w1)"
      unfolding runTest_shaped[OF shaped]
        seq_Return_eq[of "testSamples q ?tests" w "()" w0, OF samples]
      by (rule testSolve_solve_fault[OF pre fault])
    then show "TestCase_run (runTest q (PList (map test_tuple ?tests))) w =
        (?error, after_fault e s' w1)"
      by (rule TestCase_run_exit)
  qed
  have f: "well_shaped ?tests
        \<and> testSamples q ?tests w = (Return (), w0)
        \<and> testSolve q pre w0 = (Return (), w1)
        \<and> quiz_solve q dataset w1 = (Return computed_reply, w2)
        \<and> raw_check q [computed_reply, clue] (fst w2) = (Inl e, s') \<longrightarrow>
      TestCase_run (runTest q (PList (map test_tuple ?tests))) w =
        (?error, after_fault e s' w2)"
  proof (intro impI, elim conjE)
    assume shaped: "well_shaped ?tests"
      and samples: "testSamples q ?tests w = (Return (), w0)"
      and pre: "testSolve q pre w0 = (Return (), w1)"
      and solved: "quiz_solve q dataset w1 = (Return computed_reply, w2)"
      and fault: "raw_check q [computed_reply, clue] (fst w2) = (Inl e, s')"
    have "runTest q (PList (map test_tuple ?tests)) w =
        (Raise (SystemExit (- 1)), after_fault e s' w2)"
      unfolding runTest_shaped[OF shaped]
        seq_Return_eq[of "testSamples q ?tests" w "()" w0, OF samples]
      by (rule testSolve_check_fault[OF pre solved fault])
    then show "TestCase_run (runTest q (PList (map test_tuple ?tests))) w =
        (?error, after_fault e s' w2)"
      by (rule TestCase_run_exit)
  qed
  have g: "raw_generate q [] (fst w) = (Inl e, s') \<longrightarrow>
        DatasetQuiz_generate u q w = (Raise (SystemExit (- 1)), after_fault e s' w)
        \<and> CodeQuiz_generate u q w = (Raise (SystemExit (- 1)), after_fault e s' w)"
    by (simp add: DatasetQuiz_generate_fault CodeQuiz_generate_fault fatal_after_fault)
  have h: "raw_solve q [unwrap_file dataset] (fst w) = (Inl e, s') \<longrightarrow>
        quiz_solve q dataset w = (Raise (SystemExit (- 1)), after_fault e s' w)"
    by (simp add: quiz_solve_fault fatal_after_fault)
  have i: "raw_check q [reply, clue] (fst w) = (Inl e, s') \<longrightarrow>
        quiz_check q reply clue w = (Raise (SystemExit (- 1)), after_fault e s' w)"
    by (simp add: quiz_check_fault fatal_after_fault)
  show ?thesis using a b c d e f g h i by blast
qed
theorem user_fault_reported_witness:
  "TestCase_run (testSamples quiz_check_raises
        [(PStr ''d1'', PStr ''c1'', PStr ''r1''), (PStr ''d2'', PStr ''c2'', PStr ''r2'')])
        ((0::nat), []) =
       (Return (Error (SystemExit (- 1))),
        (1, [Traceback ValueError, Printed (Message ''Quiz failed with exception!'' [])]))
   \<and> TestCase_run (testSolve quiz_solve_raises
        [(PStr ''d1'', PStr ''c1'', PStr ''r1''), (PStr ''d2'', PStr ''c2'', PStr ''r2'')])
        ((0::nat), []) =
       (Return (Error (SystemExit (- 1))),
        (1, [Traceback ValueError, Printed (Message ''Quiz failed with exception!'' [])]))
   \<and> TestCase_run (testSolve quiz_check_raises
        [(PStr ''d1'', PStr ''c1'', PStr ''r1''), (PStr ''d2'', PStr ''c2'', PStr ''r2'')])
        ((0::nat), []) =
       (Return (Error (SystemExit (- 1))),
        (2, [Traceback ValueError, Printed (Message ''Quiz failed with exception!'' [])]))
   \<and> TestCase_run (runTest quiz_check_raises
        (PList [PTuple [PStr ''d1'', PStr ''c1'', PStr ''r1''],
                PTuple [PStr ''d2'', PStr ''c2'', PStr ''r2'']]))
        ((0::nat), []) =
       (Return (Error (SystemExit (- 1))),
        (1, [Traceback ValueError, Printed (Message ''Quiz failed with exception!'' [])]))
   \<and> TestCase_run (runTest quiz_solve_raises
        (PList [PTuple [PStr ''d1'', PStr ''c1'', PStr ''c1'']])) ((0::nat), []) =
       (Return (Error (SystemExit (- 1))),
        (2, [Traceback ValueError, Printed (Message ''Quiz failed with exception!'' [])]))
   \<and> TestCase_run (runTest quiz_check_once
        (PList [PTuple [PStr ''d1'', PStr ''c1'', PStr ''r1'']])) ((0::nat), []) =
       (Return (Error (SystemExit (- 1))),
        (3, [Traceback ValueError, Printed (Message ''Quiz failed with exception!'' [])]))
   \<and> DatasetQuiz_generate utils_str quiz_generate_raises ((0::nat), []) =
       (Raise (SystemExit (- 1)),
        (1, [Traceback ValueError, Printed (Message ''Quiz failed with exception!'' [])]))
   \<and> CodeQuiz_generate utils_str quiz_generate_raises ((0::nat), []) =
       (Raise (SystemExit (- 1)),
        (1, [Traceback ValueError, Printed (Message ''Quiz failed with exception!'' [])]))
   \<and> quiz_solve quiz_solve_raises (PStr ''d1'') ((0::nat), []) =
       (Raise (SystemExit (- 1)),
        (1, [Traceback ValueError, Printed (Message ''Quiz failed with exception!'' [])]))
   \<and> quiz_check quiz_check_raises (PStr ''r1'') (PStr ''c1'') ((0::nat), []) =
       (Raise (SystemExit (- 1)),
        (1, [Traceback ValueError, Printed (Message ''Quiz failed with exception!'' [])]))"
proof -
  note run = quiz_solve_def quiz_check_def wrap_solve_def wrap_check_def seq_def
    call_user_code_def check_result_def clean_answer_def clean_score_def clean_hint_def
    ret_def eq_1_def
  have e1: "testSamples q [] ((0::nat), []) = (Return (), (0, []))" for q :: "nat quiz"
    by simp
  have e2: "testSolve q [] w = (Return (), w)" for q :: "nat quiz" and w
    by simp
  have c1: "raw_check quiz_check_raises [PStr ''r1'', PStr ''c1''] (fst ((0::nat), [])) =
      (Inl ValueError, 1)"
    by (simp add: quiz_check_raises_def check_raises_def)
  have s1: "raw_solve quiz_solve_raises [unwrap_file (PStr ''d1'')] (fst ((0::nat), [])) =
      (Inl ValueError, 1)"
    by (simp add: quiz_solve_raises_def solve_raises_def)
  have s2: "quiz_solve quiz_check_raises (PStr ''d1'') ((0::nat), []) =
      (Return (PStr ''d1''), (1, []))"
    by (simp add: quiz_check_raises_def solve_echo_def run)
  have c2: "raw_check quiz_check_raises [PStr ''d1'', PStr ''c1''] (fst ((1::nat), [])) =
      (Inl ValueError, 2)"
    by (simp add: quiz_check_raises_def check_raises_def)
  have sh2: "well_shaped ([] @ (PStr ''d1'', PStr ''c1'', PStr ''r1'')
       # [(PStr ''d2'', PStr ''c2'', PStr ''r2'')])"
    by (simp add: well_shaped_def)
  have sh1: "well_shaped ([] @ (PStr ''d1'', PStr ''c1'', PStr ''c1'') # [])"
    "well_shaped ([] @ (PStr ''d1'', PStr ''c1'', PStr ''r1'') # [])"
    by (simp_all add: well_shaped_def)
  have t5: "testSamples quiz_solve_raises ([] @ (PStr ''d1'', PStr ''c1'', PStr ''c1'') # [])
      ((0::nat), []) = (Return (), (1, []))"
    by (simp add: quiz_solve_raises_def check_same_def run)
  have s5: "raw_solve quiz_solve_raises [unwrap_file (PStr ''d1'')] (fst ((1::nat), [])) =
      (Inl ValueError, 2)"
    by (simp add: quiz_solve_raises_def solve_raises_def)
  have t6: "testSamples quiz_check_once ([] @ (PStr ''d1'', PStr ''c1'', PStr ''r1'') # [])
      ((0::nat), []) = (Return (), (1, []))"
    by (simp add: quiz_check_once_def check_once_def run)
  have s6: "quiz_solve quiz_check_once (PStr ''d1'') ((1::nat), []) =
      (Return (PStr ''d1''), (2, []))"
    by (simp add: quiz_check_once_def solve_echo_def run)
  have c6: "raw_check quiz_check_once [PStr ''d1'', PStr ''c1''] (fst ((2::nat), [])) =
      (Inl ValueError, 3)"
    by (simp add: quiz_check_once_def check_once_def)
  have g7: "raw_generate quiz_generate_raises [] (fst ((0::nat), [])) = (Inl ValueError, 1)"
    by (simp add: quiz_generate_raises_def generate_raises_def)
  have r1: "TestCase_run (testSamples quiz_check_raises
        ([] @ (PStr ''d1'', PStr ''c1'', PStr ''r1'') # [(PStr ''d2'', PStr ''c2'', PStr ''r2'')]))
        ((0::nat), []) =
       (Return (Error (SystemExit (- 1))), after_fault ValueError 1 ((0::nat), []))"
    "TestCase_run (runTest quiz_check_raises (PList (map test_tuple
        ([] @ (PStr ''d1'', PStr ''c1'', PStr ''r1'') # [(PStr ''d2'', PStr ''c2'', PStr ''r2'')]))))
        ((0::nat), []) =
       (Return (Error (SystemExit (- 1))), after_fault ValueError 1 ((0::nat), []))"
    "quiz_check quiz_check_raises (PStr ''r1'') (PStr ''c1'') ((0::nat), []) =
       (Raise (SystemExit (- 1)), after_fault ValueError 1 ((0::nat), []))"
    using user_fault_reported[where q = quiz_check_raises and pre = "[]" and w = "((0::nat), [])"
        and ?w1.0 = "((0::nat), [])" and reply = "PStr ''r1''" and clue = "PStr ''c1''"
        and dataset = "PStr ''d1''" and post = "[(PStr ''d2'', PStr ''c2'', PStr ''r2'')]"
        and e = ValueError and s' = 1]
      e1 c1 sh2
    by simp_all
  have r2: "TestCase_run (testSolve quiz_solve_raises
        ([] @ (PStr ''d1'', PStr ''c1'', PStr ''r1'') # [(PStr ''d2'', PStr ''c2'', PStr ''r2'')]))
        ((0::nat), []) =
       (Return (Error (SystemExit (- 1))), after_fault ValueError 1 ((0::nat), []))"
    "quiz_solve quiz_solve_raises (PStr ''d1'') ((0::nat), []) =
       (Raise (SystemExit (- 1)), after_fault ValueError 1 ((0::nat), []))"
    using user_fault_reported[where q = quiz_solve_raises and pre = "[]" and w = "((0::nat), [])"
        and ?w1.0 = "((0::nat), [])" and reply = "PStr ''r1''" and clue = "PStr ''c1''"
        and dataset = "PStr ''d1''" and post = "[(PStr ''d2'', PStr ''c2'', PStr ''r2'')]"
        and e = ValueError and s' = 1]
      e2 s1
    by simp_all
  have r3: "TestCase_run (testSolve quiz_check_raises
        ([] @ (PStr ''d1'', PStr ''c1'', PStr ''r1'') # [(PStr ''d2'', PStr ''c2'', PStr ''r2'')]))
        ((0::nat), []) =
       (Return (Error (SystemExit (- 1))), after_fault ValueError 2 ((1::nat), []))"
    using user_fault_reported[where q = quiz_check_raises and pre = "[]" and w = "((0::nat), [])"
        and ?w1.0 = "((0::nat), [])" and ?w2.0 = "((1::nat), [])"
        and computed_reply = "PStr ''d1''" and reply = "PStr ''r1''" and clue = "PStr ''c1''"
        and dataset = "PStr ''d1''" and post = "[(PStr ''d2'', PStr ''c2'', PStr ''r2'')]"
        and e = ValueError and s' = 2]
      e2 s2 c2
    by simp
  have r5: "TestCase_run (runTest quiz_solve_raises (PList (map test_tuple
        ([] @ (PStr ''d1'', PStr ''c1'', PStr ''c1'') # [])))) ((0::nat), []) =
       (Return (Error (SystemExit (- 1))), after_fault ValueError 2 ((1::nat), []))"
    using user_fault_reported[where q = quiz_solve_raises and pre = "[]" and w = "((0::nat), [])"
        and ?w0.0 = "((1::nat), [])" and ?w1.0 = "((1::nat), [])"
        and reply = "PStr ''c1''" and clue = "PStr ''c1''"
        and dataset = "PStr ''d1''" and post = "[]" and e = ValueError and s' = 2]
      e2 sh1 t5 s5
    by simp
  have r6: "TestCase_run (runTest quiz_check_once (PList (map test_tuple
        ([] @ (PStr ''d1'', PStr ''c1'', PStr ''r1'') # [])))) ((0::nat), []) =
       (Return (Error (SystemExit (- 1))), after_fault ValueError 3 ((2::nat), []))"
    using user_fault_reported[where q = quiz_check_once and pre = "[]" and w = "((0::nat), [])"
        and ?w0.0 = "((1::nat), [])" and ?w1.0 = "((1::nat), [])" and ?w2.0 = "((2::nat), [])"
        and computed_reply = "PStr ''d1''" and reply = "PStr ''r1''" and clue = "PStr ''c1''"
        and dataset = "PStr ''d1''" and post = "[]" and e = ValueError and s' = 3]
      e2 sh1 t6 s6 c6
    by simp
  have r7: "DatasetQuiz_generate utils_str quiz_generate_raises ((0::nat), []) =
       (Raise (SystemExit (- 1)), after_fault ValueError 1 ((0::nat), []))"
    "CodeQuiz_generate utils_str quiz_generate_raises ((0::nat), []) =
       (Raise (SystemExit (- 1)), after_fault ValueError 1 ((0::nat), []))"
    using user_fault_reported[where q = quiz_generate_raises and w = "((0::nat), [])"
        and e = ValueError and s' = 1 and u = utils_str]
      g7
    by simp_all
  show ?thesis
    using r1 r2 r3 r5 r6 r7 by (simp add: after_fault_def test_tuple_def)
qed



text \<open>
  C3. As the claim states it, every construction of a \<^verbatim>\<open>DatasetQuiz\<close> without
  \<^verbatim>\<open>generate\<close> that does not succeed would exit with a message naming the function,
  the expected number of parameters and the names of the actual ones. For a \<^verbatim>\<open>solve\<close>
  that is not callable, \<^verbatim>\<open>check_signatures\<close> has a message of its own, which names the
  function only. For a callable \<^verbatim>\<open>solve\<close> of which \<^verbatim>\<open>inspect.signature\<close> finds no
  signature, the \<open>ValueError\<close> leaves the constructor and nothing is printed.
\<close>

theorem DatasetQuiz_not_callable_counterexample:
  "DatasetQuiz_init (Value PNone) (Value (PInt 42)) (Function [''reply''] check_42)
       ((0::nat), []) =
     (Raise (SystemExit (- 1)),
      (0, [Printed (Message ''`{}` is not callable.'' [PStr ''solve''])]))
   \<and> DatasetQuiz_init (Value PNone) (Builtin solve_42) (Function [''reply''] check_42)
       ((0::nat), []) =
     (Raise ValueError, (0, []))"
  by (simp add: DatasetQuiz_init_def seq_def fail_with_message_def raise_def)

text \<open>
  C3, amended. For a \<^verbatim>\<open>DatasetQuiz\<close> without \<^verbatim>\<open>generate\<close>, \<^verbatim>\<open>solve\<close> is looked
  at first and \<^verbatim>\<open>check\<close> after it. An attribute that is not callable is fatal with the
  message that it is not callable; a function with another number of parameters than
  expected (none for \<^verbatim>\<open>solve\<close>, one for \<^verbatim>\<open>check\<close>) is fatal with the message that
  names the function, the expected number and the names of the declared parameters. The
  constructor returns exactly when \<^verbatim>\<open>solve\<close> is a function of no parameter and
  \<^verbatim>\<open>check\<close> a function of one parameter, and prints nothing then. The quiz returned has
  \<^verbatim>\<open>generate\<close> return the pair of the empty dict and the empty string, \<^verbatim>\<open>solve\<close>
  call the raw solve without arguments whatever the dataset, and \<^verbatim>\<open>check\<close> call the
  raw check on the reply alone whatever the clue.
\<close>

theorem DatasetQuiz_without_generate:
  "(solve_fun = Value v \<longrightarrow>
        DatasetQuiz_init (Value PNone) solve_fun check_fun w =
          fatal (Message ''`{}` is not callable.'' [PStr ''solve'']) w)
   \<and> (solve_fun = Function ps sb \<and> ps \<noteq> [] \<longrightarrow>
        DatasetQuiz_init (Value PNone) solve_fun check_fun w =
          fatal (Message ''Expected `{}` with {} arguments, got {}.''
                   [PStr ''solve'', PInt 0, PStr (join ps)]) w)
   \<and> (solve_fun = Function [] sb \<and> check_fun = Value vc \<longrightarrow>
        DatasetQuiz_init (Value PNone) solve_fun check_fun w =
          fatal (Message ''`{}` is not callable.'' [PStr ''check'']) w)
   \<and> (solve_fun = Function [] sb \<and> check_fun = Function pc cb \<and> length pc \<noteq> 1 \<longrightarrow>
        DatasetQuiz_init (Value PNone) solve_fun check_fun w =
          fatal (Message ''Expected `{}` with {} arguments, got {}.''
                   [PStr ''check'', PInt 1, PStr (if pc \<noteq> [] then join pc else ''none'')]) w)
   \<and> ((\<exists>q w'. DatasetQuiz_init (Value PNone) solve_fun check_fun w = (Return q, w')) \<longleftrightarrow>
        (\<exists>sb. solve_fun = Function [] sb) \<and> (\<exists>p cb. check_fun = Function [p] cb))
   \<and> (DatasetQuiz_init (Value PNone) solve_fun check_fun w = (Return q, w') \<longrightarrow>
        w' = w
        \<and> raw_generate q [] s = (Inr (PTuple [PDict [], PStr '''']), s)
        \<and> raw_solve q [dataset] s = call solve_fun [] s
        \<and> raw_check q [reply, clue] s = call check_fun [reply] s)"
proof -
  let ?init = "DatasetQuiz_init (Value PNone) solve_fun check_fun w"
  let ?ok = "(\<exists>sb. solve_fun = Function [] sb) \<and> (\<exists>p cb. check_fun = Function [p] cb)"
  have len1: "length xs = Suc 0 \<longleftrightarrow> (\<exists>p. xs = [p])" for xs :: "string list"
    by (cases xs) auto
  have sig: "check_signatures [(''solve'', solve_fun, 0), (''check'', check_fun, 1)] w =
     (case solve_fun of
        Value v \<Rightarrow> fatal (Message ''`{}` is not callable.'' [PStr ''solve'']) w
      | Builtin sb \<Rightarrow> (Raise ValueError, w)
      | Function ps sb \<Rightarrow>
          if ps \<noteq> []
          then fatal (Message ''Expected `{}` with {} arguments, got {}.''
                        [PStr ''solve'', PInt 0, PStr (join ps)]) w
          else (case check_fun of
                  Value v \<Rightarrow> fatal (Message ''`{}` is not callable.'' [PStr ''check'']) w
                | Builtin cb \<Rightarrow> (Raise ValueError, w)
                | Function pc cb \<Rightarrow>
                    if length pc \<noteq> 1
                    then fatal (Message ''Expected `{}` with {} arguments, got {}.''
                                  [PStr ''check'', PInt 1,
                                   PStr (if pc \<noteq> [] then join pc else ''none'')]) w
                    else (Return (), w)))"
    by (cases solve_fun; cases check_fun)
       (simp_all add: ret_def raise_def fatal_def fail_with_message_def)
  have a: "solve_fun = Value v \<longrightarrow>
        ?init = fatal (Message ''`{}` is not callable.'' [PStr ''solve'']) w"
    unfolding DatasetQuiz_init_no_generate sig by (auto simp: fatal_def)
  have b: "solve_fun = Function ps sb \<and> ps \<noteq> [] \<longrightarrow>
        ?init = fatal (Message ''Expected `{}` with {} arguments, got {}.''
                   [PStr ''solve'', PInt 0, PStr (join ps)]) w"
    unfolding DatasetQuiz_init_no_generate sig by (auto simp: fatal_def)
  have c: "solve_fun = Function [] sb \<and> check_fun = Value vc \<longrightarrow>
        ?init = fatal (Message ''`{}` is not callable.'' [PStr ''check'']) w"
    unfolding DatasetQuiz_init_no_generate sig by (auto simp: fatal_def)
  have d: "solve_fun = Function [] sb \<and> check_fun = Function pc cb \<and> length pc \<noteq> 1 \<longrightarrow>
        ?init = fatal (Message ''Expected `{}` with {} arguments, got {}.''
                   [PStr ''check'', PInt 1, PStr (if pc \<noteq> [] then join pc else ''none'')]) w"
    unfolding DatasetQuiz_init_no_generate sig by (auto simp: fatal_def)
  have e: "(\<exists>q w'. ?init = (Return q, w')) \<longleftrightarrow> ?ok"
    unfolding DatasetQuiz_init_no_generate sig
    by (cases solve_fun; cases check_fun) (auto simp: fatal_def len1)
  have f: "?init = (Return q, w') \<longrightarrow>
        w' = w
        \<and> raw_generate q [] s = (Inr (PTuple [PDict [], PStr '''']), s)
        \<and> raw_solve q [dataset] s = call solve_fun [] s
        \<and> raw_check q [reply, clue] s = call check_fun [reply] s"
    unfolding DatasetQuiz_init_no_generate sig
    by (cases solve_fun; cases check_fun) (auto simp: fatal_def split: if_splits)
  show ?thesis using a b c d e f by blast
qed

theorem DatasetQuiz_without_generate_witness:
  "DatasetQuiz_init (Value PNone) (Function [] solve_42) (Function [''reply''] check_42)
       ((0::nat), []) = (Return quiz_42, (0, []))
   \<and> raw_generate quiz_42 [] 0 = (Inr (PTuple [PDict [], PStr '''']), 0)
   \<and> raw_solve quiz_42 [PDict []] 0 = (Inr (PStr ''42''), 1)
   \<and> raw_check quiz_42 [PStr ''42'', PStr ''''] 1 = (Inr (PInt 1), 2)
   \<and> DatasetQuiz_init (Value PNone) (Function [''dataset''] solve_42)
       (Function [''reply''] check_42) ((0::nat), []) =
     (Raise (SystemExit (- 1)),
      (0, [Printed (Message ''Expected `{}` with {} arguments, got {}.''
                      [PStr ''solve'', PInt 0, PStr ''dataset''])]))
   \<and> DatasetQuiz_init (Value PNone) (Function [] solve_42)
       (Function [''reply'', ''clue''] check_42) ((0::nat), []) =
     (Raise (SystemExit (- 1)),
      (0, [Printed (Message ''Expected `{}` with {} arguments, got {}.''
                      [PStr ''check'', PInt 1, PStr ''reply, clue''])]))
   \<and> DatasetQuiz_init (Value PNone) (Function [] solve_42) (Function [] check_42)
       ((0::nat), []) =
     (Raise (SystemExit (- 1)),
      (0, [Printed (Message ''Expected `{}` with {} arguments, got {}.''
                      [PStr ''check'', PInt 1, PStr ''none''])]))
   \<and> DatasetQuiz_init (Value PNone) (Value (PStr ''42'')) (Function [''reply''] check_42)
       ((0::nat), []) =
     (Raise (SystemExit (- 1)),
      (0, [Printed (Message ''`{}` is not callable.'' [PStr ''solve''])]))
   \<and> DatasetQuiz_init (Value PNone) (Function [] solve_42) (Value PNone) ((0::nat), []) =
     (Raise (SystemExit (- 1)),
      (0, [Printed (Message ''`{}` is not callable.'' [PStr ''check''])]))"
proof -
  have init: "DatasetQuiz_init (Value PNone) (Function [] solve_42) (Function [''reply''] check_42)
       ((0::nat), []) = (Return quiz_42, (0, []))"
    by (simp add: DatasetQuiz_init_def seq_def ret_def quiz_42_def cong: list.case_cong)
  show ?thesis
    using DatasetQuiz_without_generate
            [where solve_fun = "Function [] solve_42" and check_fun = "Function [''reply''] check_42"
               and w = "((0::nat), [])" and q = quiz_42 and w' = "((0::nat), [])" and s = 0
               and dataset = "PDict []" and reply = "PStr ''42''" and clue = "PStr ''''"]
          DatasetQuiz_without_generate
            [where solve_fun = "Function [] solve_42" and check_fun = "Function [''reply''] check_42"
               and w = "((0::nat), [])" and q = quiz_42 and w' = "((0::nat), [])" and s = 1
               and dataset = "PDict []" and reply = "PStr ''42''" and clue = "PStr ''''"]
          DatasetQuiz_without_generate
            [where solve_fun = "Function [''dataset''] solve_42"
               and check_fun = "Function [''reply''] check_42" and w = "((0::nat), [])"
               and ps = "[''dataset'']" and sb = solve_42]
          DatasetQuiz_without_generate
            [where solve_fun = "Function [] solve_42"
               and check_fun = "Function [''reply'', ''clue''] check_42" and w = "((0::nat), [])"
               and sb = solve_42 and pc = "[''reply'', ''clue'']" and cb = check_42]
          DatasetQuiz_without_generate
            [where solve_fun = "Function [] solve_42" and check_fun = "Function [] check_42"
               and w = "((0::nat), [])" and sb = solve_42 and pc = "[]" and cb = check_42]
          DatasetQuiz_without_generate
            [where solve_fun = "Value (PStr ''42'')" and check_fun = "Function [''reply''] check_42"
               and w = "((0::nat), [])" and v = "PStr ''42''"]
          DatasetQuiz_without_generate
            [where solve_fun = "Function [] solve_42" and check_fun = "Value PNone"
               and w = "((0::nat), [])" and sb = solve_42 and vc = PNone]
          init
    by (simp add: fatal_def solve_42_def check_42_def)
qed

text \<open>
  C4. \<^verbatim>\<open>clean_score\<close> returns exactly on the real numbers of the closed interval from
  0 to 1, and then returns the value it was given in an unchanged world; on every other value
  it prints its message and exits with status -1. A real number is a value of which
  \<^verbatim>\<open>isinstance(score, numbers.Real)\<close> holds: a bool, an int, a float, or an instance of
  another such class, a \<^verbatim>\<open>Fraction\<close> for one. The floats 0.0 and 1.0 are accepted; the
  floats written 1.0001 and -0.0001 (given here by their exact values) and every value that
  is not a number are rejected. A score returned by the wrapped \<^verbatim>\<open>check\<close> has passed
  this cleaning.
\<close>

theorem clean_score_unit_interval:
  "(clean_score v w = (Return v', w') \<longleftrightarrow> score_in_range v \<and> v' = v \<and> w' = w)
   \<and> (\<not> score_in_range v \<longrightarrow>
        clean_score v w = fatal (Message ''score should be a number in range [0, 1]'' []) w)
   \<and> (score_in_range v \<longleftrightarrow> (\<exists>r. real_value v = Some (Finite r) \<and> 0 \<le> r \<and> r \<le> 1))
   \<and> clean_score (PFloat (Finite 0)) w = (Return (PFloat (Finite 0)), w)
   \<and> clean_score (PFloat (Finite 1)) w = (Return (PFloat (Finite 1)), w)
   \<and> clean_score (PFloat (Finite (4504049987333233 / 4503599627370496))) w =
        fatal (Message ''score should be a number in range [0, 1]'' []) w
   \<and> clean_score (PFloat (Finite (- (7378697629483821 / 73786976294838206464)))) w =
        fatal (Message ''score should be a number in range [0, 1]'' []) w
   \<and> (real_value v = None \<longrightarrow>
        \<not> score_in_range v
        \<and> clean_score v w = fatal (Message ''score should be a number in range [0, 1]'' []) w)
   \<and> (wrap_check check reply clue w = (Return (sc, h), w2) \<longrightarrow>
        score_in_range sc \<and> clean_score sc w2 = (Return sc, w2))"
proof -
  have a: "clean_score v w = (Return v', w') \<longleftrightarrow> score_in_range v \<and> v' = v \<and> w' = w"
    by (auto simp: clean_score_cases)
  have b: "\<not> score_in_range v \<longrightarrow>
        clean_score v w = fatal (Message ''score should be a number in range [0, 1]'' []) w"
    by (simp add: clean_score_cases fatal_def)
  have c: "score_in_range v \<longleftrightarrow> (\<exists>r. real_value v = Some (Finite r) \<and> 0 \<le> r \<and> r \<le> 1)"
    by (cases v rule: score_in_range.cases) auto
  have d: "clean_score (PFloat (Finite 0)) w = (Return (PFloat (Finite 0)), w)"
    "clean_score (PFloat (Finite 1)) w = (Return (PFloat (Finite 1)), w)"
    "clean_score (PFloat (Finite (4504049987333233 / 4503599627370496))) w =
        fatal (Message ''score should be a number in range [0, 1]'' []) w"
    "clean_score (PFloat (Finite (- (7378697629483821 / 73786976294838206464)))) w =
        fatal (Message ''score should be a number in range [0, 1]'' []) w"
    by (simp_all add: clean_score_cases fatal_def)
  have e: "real_value v = None \<longrightarrow>
        \<not> score_in_range v
        \<and> clean_score v w = fatal (Message ''score should be a number in range [0, 1]'' []) w"
    using b c by auto
  have f: "wrap_check check reply clue w = (Return (sc, h), w2) \<longrightarrow>
        score_in_range sc \<and> clean_score sc w2 = (Return sc, w2)"
    using wrap_check_score[of check reply clue w sc h w2]
    by (auto simp: clean_score_cases)
  show ?thesis
    using a b c d e f by blast
qed

theorem clean_score_unit_interval_witness:
  "\<not> score_in_range (PFloat (Finite (3 / 2)))
   \<and> clean_score (PFloat (Finite (3 / 2))) ((0::nat), []) =
       (Raise (SystemExit (- 1)),
        (0, [Printed (Message ''score should be a number in range [0, 1]'' [])]))
   \<and> real_value (PStr ''1'') = None
   \<and> clean_score (PStr ''1'') ((0::nat), []) =
       (Raise (SystemExit (- 1)),
        (0, [Printed (Message ''score should be a number in range [0, 1]'' [])]))
   \<and> score_in_range (PReal ''Fraction'' (Finite (1 / 2)))
   \<and> clean_score (PReal ''Fraction'' (Finite (1 / 2))) ((0::nat), []) =
       (Return (PReal ''Fraction'' (Finite (1 / 2))), (0, []))
   \<and> wrap_check (\<lambda>args s. (Inr (PTuple [PReal ''Fraction'' (Finite (1 / 2)), PStr ''ok'']), s))
        (PStr ''42'') PNone ((0::nat), []) =
       (Return (PReal ''Fraction'' (Finite (1 / 2)), PStr ''ok''), (0, []))"
proof -
  have run: "wrap_check
        (\<lambda>args s. (Inr (PTuple [PReal ''Fraction'' (Finite (1 / 2)), PStr ''ok'']), s))
        (PStr ''42'') PNone ((0::nat), []) =
       (Return (PReal ''Fraction'' (Finite (1 / 2)), PStr ''ok''), (0, []))"
    by (simp add: wrap_check_def seq_def call_user_code_def check_result_def
          clean_score_def clean_hint_def ret_def)
  have r: "real_value (PStr ''1'') = None" "\<not> score_in_range (PFloat (Finite (3 / 2)))"
    "score_in_range (PReal ''Fraction'' (Finite (1 / 2)))"
    by simp_all
  show ?thesis
    using clean_score_unit_interval
      [of "PFloat (Finite (3 / 2))" "((0::nat), [])" "PNone" "((0::nat), [])"
          "\<lambda>args s. (Inr (PTuple [PReal ''Fraction'' (Finite (1 / 2)), PStr ''ok'']), s)"
          "PStr ''42''" PNone "PReal ''Fraction'' (Finite (1 / 2))" "PStr ''ok''" "((0::nat), [])"]
      clean_score_unit_interval
      [of "PStr ''1''" "((0::nat), [])" "PNone" "((0::nat), [])"
          "\<lambda>args s. (Inr (PTuple [PReal ''Fraction'' (Finite (1 / 2)), PStr ''ok'']), s)"
          "PStr ''42''" PNone "PReal ''Fraction'' (Finite (1 / 2))" "PStr ''ok''" "((0::nat), [])"]
      clean_score_unit_interval
      [of "PReal ''Fraction'' (Finite (1 / 2))" "((0::nat), [])"
          "PReal ''Fraction'' (Finite (1 / 2))" "((0::nat), [])"
          "\<lambda>args s. (Inr (PTuple [PReal ''Fraction'' (Finite (1 / 2)), PStr ''ok'']), s)"
          "PStr ''42''" PNone "PReal ''Fraction'' (Finite (1 / 2))" "PStr ''ok''" "((0::nat), [])"]
      run r
    by (simp add: fatal_def)
qed

text \<open>
  C5. \<^verbatim>\<open>DatasetQuiz.self_check\<close> returns \<open>b\<close> exactly when the wrapped generate returns
  a dataset and a clue, then the wrapped solve returns an answer for that dataset, then the
  wrapped check returns a score for that answer and that clue, each run once in the world
  the one before left, and \<open>b\<close> tells whether the score equals 1. \<^verbatim>\<open>CodeQuiz.self_check\<close>
  returns true exactly when the wrapped generate returns a list of cases of which every one
  scores 1. It returns false exactly when the wrapped generate returns a list of cases of
  which one has a score that is not 1 while all the cases before it score 1; it returns
  then in the world that the check of this case left, so that the cases after it are not
  run. A score equals 1 when it is \<^verbatim>\<open>True\<close>, \<^verbatim>\<open>1\<close>, \<^verbatim>\<open>1.0\<close> or another real
  number of value 1, such as \<^verbatim>\<open>Fraction(1)\<close>.
\<close>

theorem self_check_oracle:
  "(DatasetQuiz_self_check u q w = (Return b, w') \<longleftrightarrow>
      (\<exists>dataset clue w1 answer w2 score hint.
          DatasetQuiz_generate u q w = (Return (dataset, clue), w1)
        \<and> quiz_solve q dataset w1 = (Return answer, w2)
        \<and> quiz_check q answer clue w2 = (Return (score, hint), w')
        \<and> b = eq_1 score))
   \<and> (CodeQuiz_self_check u q w = (Return True, w') \<longleftrightarrow>
        (\<exists>cases w1. CodeQuiz_generate u q w = (Return cases, w1)
                  \<and> every_case_scores_1 q cases w1 w'))
   \<and> (CodeQuiz_self_check u q w = (Return False, w') \<longleftrightarrow>
        (\<exists>cases w1 pre dataset clue post w2 answer w3 score hint.
            CodeQuiz_generate u q w = (Return cases, w1)
          \<and> cases = pre @ (dataset, clue) # post
          \<and> every_case_scores_1 q pre w1 w2
          \<and> quiz_solve q dataset w2 = (Return answer, w3)
          \<and> quiz_check q answer clue w3 = (Return (score, hint), w')
          \<and> \<not> eq_1 score))
   \<and> (CodeQuiz_self_check u q w = (Return False, w') \<longrightarrow>
        (\<exists>cases w1. CodeQuiz_generate u q w = (Return cases, w1)
                  \<and> \<not> every_case_scores_1 q cases w1 w''))
   \<and> (eq_1 s \<longleftrightarrow>
        s = PBool True \<or> s = PInt 1 \<or> s = PFloat (Finite 1) \<or> (\<exists>c. s = PReal c (Finite 1)))"
proof -
  have a: "DatasetQuiz_self_check u q w = (Return b, w') \<longleftrightarrow>
      (\<exists>dataset clue w1 answer w2 score hint.
          DatasetQuiz_generate u q w = (Return (dataset, clue), w1)
        \<and> quiz_solve q dataset w1 = (Return answer, w2)
        \<and> quiz_check q answer clue w2 = (Return (score, hint), w')
        \<and> b = eq_1 score)"
  proof
    assume "DatasetQuiz_self_check u q w = (Return b, w')"
    then obtain p w1 answer w2 r where
      g: "DatasetQuiz_generate u q w = (Return p, w1)" and
      s: "quiz_solve q (fst p) w1 = (Return answer, w2)" and
      c: "quiz_check q answer (snd p) w2 = (Return r, w')" and
      b: "b = eq_1 (fst r)"
      unfolding DatasetQuiz_self_check_def
      by (auto simp: seq_Return_iff ret_def case_prod_beta)
    have "DatasetQuiz_generate u q w = (Return (fst p, snd p), w1)"
      "quiz_check q answer (snd p) w2 = (Return (fst r, snd r), w')"
      using g c by simp_all
    with s b show "\<exists>dataset clue w1 answer w2 score hint.
          DatasetQuiz_generate u q w = (Return (dataset, clue), w1)
        \<and> quiz_solve q dataset w1 = (Return answer, w2)
        \<and> quiz_check q answer clue w2 = (Return (score, hint), w')
        \<and> b = eq_1 score"
      by blast
  next
    assume "\<exists>dataset clue w1 answer w2 score hint.
          DatasetQuiz_generate u q w = (Return (dataset, clue), w1)
        \<and> quiz_solve q dataset w1 = (Return answer, w2)
        \<and> quiz_check q answer clue w2 = (Return (score, hint), w')
        \<and> b = eq_1 score"
    then show "DatasetQuiz_self_check u q w = (Return b, w')"
      unfolding DatasetQuiz_self_check_def
      by (auto simp: seq_def ret_def)
  qed
  have b: "CodeQuiz_self_check u q w = (Return True, w') \<longleftrightarrow>
        (\<exists>cases w1. CodeQuiz_generate u q w = (Return cases, w1)
                  \<and> every_case_scores_1 q cases w1 w')"
    unfolding CodeQuiz_self_check_def seq_Return_iff all_starmap_True by simp
  have c: "CodeQuiz_self_check u q w = (Return False, w') \<longleftrightarrow>
        (\<exists>cases w1 pre dataset clue post w2 answer w3 score hint.
            CodeQuiz_generate u q w = (Return cases, w1)
          \<and> cases = pre @ (dataset, clue) # post
          \<and> every_case_scores_1 q pre w1 w2
          \<and> quiz_solve q dataset w2 = (Return answer, w3)
          \<and> quiz_check q answer clue w3 = (Return (score, hint), w')
          \<and> \<not> eq_1 score)"
    unfolding CodeQuiz_self_check_def seq_Return_iff all_starmap_False_iff by blast
  have d: "CodeQuiz_self_check u q w = (Return False, w') \<longrightarrow>
        (\<exists>cases w1. CodeQuiz_generate u q w = (Return cases, w1)
                  \<and> \<not> every_case_scores_1 q cases w1 w'')"
    unfolding CodeQuiz_self_check_def seq_Return_iff
    using all_starmap_False by blast
  show ?thesis using a b c d eq_1_cases[of s] by blast
qed

theorem self_check_oracle_witness:
  "DatasetQuiz_self_check utils_str quiz_42 ((0::nat), []) = (Return True, (2, []))
   \<and> CodeQuiz_generate utils_str code_quiz_ab ((0::nat), []) =
       (Return [(PStr ''a'', PStr ''a''), (PStr ''b'', PStr ''b'')], (3, []))
   \<and> CodeQuiz_self_check utils_str code_quiz_ab ((0::nat), []) = (Return True, (7, []))
   \<and> CodeQuiz_generate utils_str code_quiz_wrong_clue ((0::nat), []) =
       (Return [(PStr ''a'', PStr ''a''), (PStr ''b'', PStr ''x''), (PStr ''c'', PStr ''c'')],
        (1, []))
   \<and> quiz_check code_quiz_wrong_clue (PStr ''b'') (PStr ''x'') ((4::nat), []) =
       (Return (PBool False, PStr ''''), (5, []))
   \<and> CodeQuiz_self_check utils_str code_quiz_wrong_clue ((0::nat), []) = (Return False, (5, []))"
proof -
  note defs = wrap_generate_def wrap_solve_def wrap_check_def generate_result_def
    check_result_def call_user_code_def seq_def ret_def clean_dataset_def clean_clue_def
    clean_answer_def clean_score_def clean_hint_def decode_encode_def utils_str_def
    decode_str_def quiz_solve_def quiz_check_def
  have g: "DatasetQuiz_generate utils_str quiz_42 ((0::nat), []) =
      (Return (PDict [], PStr ''''), (0, []))"
    by (simp add: DatasetQuiz_generate_def quiz_42_def defs)
  have s: "quiz_solve quiz_42 (PDict []) ((0::nat), []) = (Return (PStr ''42''), (1, []))"
    by (simp add: quiz_42_def solve_42_def defs)
  have c: "quiz_check quiz_42 (PStr ''42'') (PStr '''') ((1::nat), []) =
       (Return (PInt 1, PStr ''''), (2, []))"
    by (simp add: quiz_42_def check_42_def defs)
  have e: "True = eq_1 (PInt 1)"
    by (simp add: eq_1_def)
  have cg: "CodeQuiz_generate utils_str code_quiz_ab ((0::nat), []) =
       (Return [(PStr ''a'', PStr ''a''), (PStr ''b'', PStr ''b'')], (3, []))"
    by (simp add: CodeQuiz_generate_def CodeQuiz_wrap_generate_def code_quiz_ab_def
          generate_ab_def solve_echo_def is_dataset_def CodeQuiz_clean_dataset_def defs)
  have ev: "every_case_scores_1 code_quiz_ab [(PStr ''a'', PStr ''a''), (PStr ''b'', PStr ''b'')]
       ((3::nat), []) (7, [])"
    by (simp add: code_quiz_ab_def solve_echo_def check_same_def eq_1_def defs)
  have ex: "\<exists>dataset clue w1 answer w2 score hint.
          DatasetQuiz_generate utils_str quiz_42 ((0::nat), []) = (Return (dataset, clue), w1)
        \<and> quiz_solve quiz_42 dataset w1 = (Return answer, w2)
        \<and> quiz_check quiz_42 answer clue w2 = (Return (score, hint), ((2::nat), []))
        \<and> True = eq_1 score"
    by (intro exI conjI) (rule g, rule s, rule c, rule e)
  have d: "DatasetQuiz_self_check utils_str quiz_42 ((0::nat), []) = (Return True, (2, []))"
    by (rule iffD2[OF conjunct1[OF self_check_oracle] ex])
  have exc: "\<exists>cases w1. CodeQuiz_generate utils_str code_quiz_ab ((0::nat), []) = (Return cases, w1)
                  \<and> every_case_scores_1 code_quiz_ab cases w1 ((7::nat), [])"
    by (intro exI conjI) (rule cg, rule ev)
  have k: "CodeQuiz_self_check utils_str code_quiz_ab ((0::nat), []) = (Return True, (7, []))"
    by (rule iffD2[OF conjunct1[OF conjunct2[OF self_check_oracle]] exc])
  have wg: "CodeQuiz_generate utils_str code_quiz_wrong_clue ((0::nat), []) =
       (Return [(PStr ''a'', PStr ''a''), (PStr ''b'', PStr ''x''), (PStr ''c'', PStr ''c'')],
        (1, []))"
    by (simp add: CodeQuiz_generate_def CodeQuiz_wrap_generate_def code_quiz_wrong_clue_def
          generate_const_def is_dataset_def CodeQuiz_clean_dataset_def defs)
  have wl: "[(PStr ''a'', PStr ''a''), (PStr ''b'', PStr ''x''), (PStr ''c'', PStr ''c'')] =
       [(PStr ''a'', PStr ''a'')] @ (PStr ''b'', PStr ''x'') # [(PStr ''c'', PStr ''c'')]"
    by simp
  have wp: "every_case_scores_1 code_quiz_wrong_clue [(PStr ''a'', PStr ''a'')]
       ((1::nat), []) (3, [])"
    by (simp add: code_quiz_wrong_clue_def solve_echo_def check_same_def eq_1_def defs)
  have ws: "quiz_solve code_quiz_wrong_clue (PStr ''b'') ((3::nat), []) =
       (Return (PStr ''b''), (4, []))"
    by (simp add: code_quiz_wrong_clue_def solve_echo_def defs)
  have wc: "quiz_check code_quiz_wrong_clue (PStr ''b'') (PStr ''x'') ((4::nat), []) =
       (Return (PBool False, PStr ''''), (5, []))"
    by (simp add: code_quiz_wrong_clue_def check_same_def defs)
  have we: "\<not> eq_1 (PBool False)"
    by (simp add: eq_1_def)
  have exw: "\<exists>cases w1 pre dataset clue post w2 answer w3 score hint.
            CodeQuiz_generate utils_str code_quiz_wrong_clue ((0::nat), []) = (Return cases, w1)
          \<and> cases = pre @ (dataset, clue) # post
          \<and> every_case_scores_1 code_quiz_wrong_clue pre w1 w2
          \<and> quiz_solve code_quiz_wrong_clue dataset w2 = (Return answer, w3)
          \<and> quiz_check code_quiz_wrong_clue answer clue w3 =
              (Return (score, hint), ((5::nat), []))
          \<and> \<not> eq_1 score"
    by (intro exI conjI) (rule wg, rule wl, rule wp, rule ws, rule wc, rule we)
  have f: "CodeQuiz_self_check utils_str code_quiz_wrong_clue ((0::nat), []) =
       (Return False, (5, []))"
    by (rule iffD2[OF conjunct1[OF conjunct2[OF conjunct2[OF self_check_oracle]]] exw])
  show ?thesis using d cg k wg wc f by simp
qed

text \<open>
  C6. When the raw \<^verbatim>\<open>check\<close> has returned \<open>r\<close>, the wrapped check takes a tuple of
  length 2 as score and hint, exits with the message about the length for a tuple of any
  other length, and takes any other value as the score with the empty hint. Score and hint
  then go through \<^verbatim>\<open>clean_score\<close> and \<^verbatim>\<open>clean_hint\<close>, in this order: a score that
  is not a real number of the closed interval from 0 to 1 and a hint that is not a string
  are fatal; otherwise the pair is returned.
\<close>

theorem wrap_check_cases:
  assumes "call_user_code check [reply, clue] w = (Return r, w1)"
  shows "(r = PTuple [s, h] \<longrightarrow>
            wrap_check check reply clue w =
              seq (clean_score s) (\<lambda>s'. seq (clean_hint h) (\<lambda>h'. ret (s', h'))) w1)
       \<and> (r = PTuple xs \<and> length xs \<noteq> 2 \<longrightarrow>
            wrap_check check reply clue w =
              fatal (Message (''check() returned a tuple but it's length is not 2.'' @ [CHR 0x0A]
                 @ ''check should return either a score or a (score, hit) tuple.'') []) w1)
       \<and> (\<not> is_tuple r \<longrightarrow>
            wrap_check check reply clue w =
              seq (clean_score r) (\<lambda>s'. seq (clean_hint (PStr '''')) (\<lambda>h'. ret (s', h'))) w1)
       \<and> seq (clean_score s) (\<lambda>s'. seq (clean_hint h) (\<lambda>h'. ret (s', h'))) w1 =
            (if \<not> score_in_range s
             then fatal (Message ''score should be a number in range [0, 1]'' []) w1
             else if \<not> is_str h then fatal (Message ''hint should be a str'' []) w1
             else (Return (s, h), w1))"
proof -
  note unf = wrap_check_returned[OF assms]
  have a: "r = PTuple [s, h] \<longrightarrow>
            wrap_check check reply clue w =
              seq (clean_score s) (\<lambda>s'. seq (clean_hint h) (\<lambda>h'. ret (s', h'))) w1"
    unfolding unf by (simp add: seq_def check_result_cases)
  have b: "r = PTuple xs \<and> length xs \<noteq> 2 \<longrightarrow>
            wrap_check check reply clue w =
              fatal (Message (''check() returned a tuple but it's length is not 2.'' @ [CHR 0x0A]
                 @ ''check should return either a score or a (score, hit) tuple.'') []) w1"
    unfolding unf by (simp add: seq_def check_result_cases fatal_def)
  have c: "\<not> is_tuple r \<longrightarrow>
            wrap_check check reply clue w =
              seq (clean_score r) (\<lambda>s'. seq (clean_hint (PStr '''')) (\<lambda>h'. ret (s', h'))) w1"
    unfolding unf by (cases r) (simp_all add: seq_def check_result_cases)
  show ?thesis
    using a b c clean_pair_cases[of s h w1] by blast
qed

theorem wrap_check_cases_witness:
  "wrap_check (\<lambda>args s. (Inr (PTuple [PFloat (Finite (1 / 2)), PStr ''half'']), s))
       (PStr ''41'') (PStr ''42'') ((0::nat), []) =
     (Return (PFloat (Finite (1 / 2)), PStr ''half''), (0, []))
   \<and> wrap_check (\<lambda>args s. (Inr (PTuple [PInt 1, PStr ''a'', PStr ''b'']), s))
       (PStr ''41'') (PStr ''42'') ((0::nat), []) =
     (Raise (SystemExit (- 1)),
      (0, [Printed (Message (''check() returned a tuple but it's length is not 2.'' @ [CHR 0x0A]
                 @ ''check should return either a score or a (score, hit) tuple.'') [])]))
   \<and> wrap_check (\<lambda>args s. (Inr (PInt 1), s)) (PStr ''41'') (PStr ''42'') ((0::nat), []) =
     (Return (PInt 1, PStr ''''), (0, []))
   \<and> wrap_check (\<lambda>args s. (Inr (PReal ''Fraction'' (Finite (1 / 2))), s))
       (PStr ''41'') (PStr ''42'') ((0::nat), []) =
     (Return (PReal ''Fraction'' (Finite (1 / 2)), PStr ''''), (0, []))
   \<and> wrap_check (\<lambda>args s. (Inr (PFloat (Finite (3 / 2))), s))
       (PStr ''41'') (PStr ''42'') ((0::nat), []) =
     (Raise (SystemExit (- 1)),
      (0, [Printed (Message ''score should be a number in range [0, 1]'' [])]))
   \<and> wrap_check (\<lambda>args s. (Inr (PTuple [PInt 1, PInt 7]), s))
       (PStr ''41'') (PStr ''42'') ((0::nat), []) =
     (Raise (SystemExit (- 1)), (0, [Printed (Message ''hint should be a str'' [])]))"
proof -
  have call1: "call_user_code (\<lambda>args s. (Inr (PTuple [PFloat (Finite (1 / 2)), PStr ''half'']), s))
       [PStr ''41'', PStr ''42''] ((0::nat), []) =
     (Return (PTuple [PFloat (Finite (1 / 2)), PStr ''half'']), (0, []))"
    by (simp add: call_user_code_def)
  have call2: "call_user_code (\<lambda>args s. (Inr (PTuple [PInt 1, PStr ''a'', PStr ''b'']), s))
       [PStr ''41'', PStr ''42''] ((0::nat), []) =
     (Return (PTuple [PInt 1, PStr ''a'', PStr ''b'']), (0, []))"
    by (simp add: call_user_code_def)
  have call3: "call_user_code (\<lambda>args s. (Inr (PInt 1), s)) [PStr ''41'', PStr ''42''] ((0::nat), []) =
     (Return (PInt 1), (0, []))"
    by (simp add: call_user_code_def)
  have call4: "call_user_code (\<lambda>args s. (Inr (PReal ''Fraction'' (Finite (1 / 2))), s))
       [PStr ''41'', PStr ''42''] ((0::nat), []) =
     (Return (PReal ''Fraction'' (Finite (1 / 2))), (0, []))"
    by (simp add: call_user_code_def)
  have call5: "call_user_code (\<lambda>args s. (Inr (PFloat (Finite (3 / 2))), s))
       [PStr ''41'', PStr ''42''] ((0::nat), []) =
     (Return (PFloat (Finite (3 / 2))), (0, []))"
    by (simp add: call_user_code_def)
  have call6: "call_user_code (\<lambda>args s. (Inr (PTuple [PInt 1, PInt 7]), s))
       [PStr ''41'', PStr ''42''] ((0::nat), []) =
     (Return (PTuple [PInt 1, PInt 7]), (0, []))"
    by (simp add: call_user_code_def)
  show ?thesis
    using wrap_check_cases[OF call1, of "PFloat (Finite (1 / 2))" "PStr ''half''" "[]"]
      wrap_check_cases[OF call2, of "PInt 1" "PStr ''''" "[PInt 1, PStr ''a'', PStr ''b'']"]
      wrap_check_cases[OF call3, of "PInt 1" "PStr ''''" "[]"]
      wrap_check_cases[OF call4, of "PReal ''Fraction'' (Finite (1 / 2))" "PStr ''''" "[]"]
      wrap_check_cases[OF call5, of "PFloat (Finite (3 / 2))" "PStr ''''" "[]"]
      wrap_check_cases[OF call6, of "PInt 1" "PInt 7" "[]"]
    by (simp add: fatal_def)
qed




text \<open>
  C8. The cleaners of score, answer and dataset (the one of \<^verbatim>\<open>BaseQuiz\<close> and the one of
  \<^verbatim>\<open>CodeQuiz\<close>) are idempotent: when a cleaner returns \<open>v'\<close> for \<open>v\<close>, the same
  cleaner applied to \<open>v'\<close> returns \<open>v'\<close> again and prints nothing.
\<close>

theorem cleaners_idempotent:
  "(clean_score v w = (Return v', w') \<longrightarrow> clean_score v' w' = (Return v', w'))
   \<and> (clean_answer v w = (Return v', w') \<longrightarrow> clean_answer v' w' = (Return v', w'))
   \<and> (clean_dataset v w = (Return v', w') \<longrightarrow> clean_dataset v' w' = (Return v', w'))
   \<and> (CodeQuiz_clean_dataset v w = (Return v', w') \<longrightarrow>
        CodeQuiz_clean_dataset v' w' = (Return v', w'))"
proof -
  have a: "clean_score v w = (Return v', w') \<longrightarrow> clean_score v' w' = (Return v', w')"
    by (auto simp: clean_score_cases split: if_splits)
  have b: "clean_answer v w = (Return v', w') \<longrightarrow> clean_answer v' w' = (Return v', w')"
    by (auto simp: clean_answer_cases fatal_def split: if_splits)
  have c: "clean_dataset v w = (Return v', w') \<longrightarrow> clean_dataset v' w' = (Return v', w')"
    by (auto simp: clean_dataset_cases fatal_def split: if_splits)
  have d: "CodeQuiz_clean_dataset v w = (Return v', w') \<longrightarrow>
        CodeQuiz_clean_dataset v' w' = (Return v', w')"
    by (auto simp: CodeQuiz_clean_dataset_cases fatal_def split: if_splits)
  show ?thesis using a b c d by blast
qed

theorem cleaners_idempotent_witness:
  "clean_dataset (PStr ''1 2 3'') ((0::nat), []) =
     (Return (PDict [(PStr ''file'', PStr ''1 2 3'')]), (0, []))
   \<and> clean_dataset (PDict [(PStr ''file'', PStr ''1 2 3'')]) ((0::nat), []) =
     (Return (PDict [(PStr ''file'', PStr ''1 2 3'')]), (0, []))
   \<and> clean_score (PFloat (Finite (1 / 2))) ((0::nat), []) =
     (Return (PFloat (Finite (1 / 2))), (0, []))
   \<and> clean_answer (PStr ''6'') ((0::nat), []) = (Return (PStr ''6''), (0, []))
   \<and> CodeQuiz_clean_dataset (PStr ''1 2 3'') ((0::nat), []) =
     (Return (PStr ''1 2 3''), (0, []))"
proof -
  have ds: "clean_dataset (PStr ''1 2 3'') ((0::nat), []) =
     (Return (PDict [(PStr ''file'', PStr ''1 2 3'')]), (0, []))"
    by (simp add: clean_dataset_def ret_def)
  have sc: "clean_score (PFloat (Finite (1 / 2))) ((0::nat), []) =
     (Return (PFloat (Finite (1 / 2))), (0, []))"
    by (simp add: clean_score_def ret_def)
  have an: "clean_answer (PStr ''6'') ((0::nat), []) = (Return (PStr ''6''), (0, []))"
    by (simp add: clean_answer_def ret_def)
  have cd: "CodeQuiz_clean_dataset (PStr ''1 2 3'') ((0::nat), []) =
     (Return (PStr ''1 2 3''), (0, []))"
    by (simp add: CodeQuiz_clean_dataset_def ret_def)
  show ?thesis
    using cleaners_idempotent
            [of "PStr ''1 2 3''" "((0::nat), [])" "PDict [(PStr ''file'', PStr ''1 2 3'')]" "((0::nat), [])"]
          cleaners_idempotent
            [of "PFloat (Finite (1 / 2))" "((0::nat), [])" "PFloat (Finite (1 / 2))" "((0::nat), [])"]
          cleaners_idempotent
            [of "PStr ''6''" "((0::nat), [])" "PStr ''6''" "((0::nat), [])"]
          ds sc an cd
    by simp
qed

text \<open>
  C9. Whatever \<^verbatim>\<open>BaseQuiz.clean_dataset\<close> (the cleaner of \<^verbatim>\<open>DatasetQuiz\<close>) returns
  is a dict: the dict it was given, or the dict with the single key \<^verbatim>\<open>'file'\<close> around
  the string or the bytes it was given. Whatever \<^verbatim>\<open>CodeQuiz.clean_dataset\<close> returns is
  the string it was given.
\<close>

theorem cleaned_dataset_type:
  "(clean_dataset v w = (Return d, w') \<longrightarrow>
      is_dict d \<and> w' = w
      \<and> (is_str v \<or> is_bytes v \<longrightarrow> d = PDict [(PStr ''file'', v)])
      \<and> (is_dict v \<longrightarrow> d = v))
   \<and> (CodeQuiz_clean_dataset v w = (Return d, w') \<longrightarrow> is_str d \<and> d = v \<and> w' = w)"
proof -
  have a: "clean_dataset v w = (Return d, w') \<longrightarrow>
      is_dict d \<and> w' = w
      \<and> (is_str v \<or> is_bytes v \<longrightarrow> d = PDict [(PStr ''file'', v)])
      \<and> (is_dict v \<longrightarrow> d = v)"
    by (cases v) (auto simp: clean_dataset_cases fatal_def split: if_splits)
  have b: "CodeQuiz_clean_dataset v w = (Return d, w') \<longrightarrow> is_str d \<and> d = v \<and> w' = w"
    by (auto simp: CodeQuiz_clean_dataset_cases fatal_def split: if_splits)
  show ?thesis using a b by blast
qed

theorem cleaned_dataset_type_witness:
  "clean_dataset (PBytes [49, 10]) ((0::nat), []) =
     (Return (PDict [(PStr ''file'', PBytes [49, 10])]), (0, []))
   \<and> is_dict (PDict [(PStr ''file'', PBytes [49, 10])])
   \<and> is_bytes (PBytes [49, 10])
   \<and> clean_dataset (PDict [(PStr ''n'', PInt 3)]) ((0::nat), []) =
     (Return (PDict [(PStr ''n'', PInt 3)]), (0, []))
   \<and> is_dict (PDict [(PStr ''n'', PInt 3)])
   \<and> CodeQuiz_clean_dataset (PStr ''1 2 3'') ((0::nat), []) =
     (Return (PStr ''1 2 3''), (0, []))
   \<and> is_str (PStr ''1 2 3'')"
proof -
  have ds: "clean_dataset (PBytes [49, 10]) ((0::nat), []) =
     (Return (PDict [(PStr ''file'', PBytes [49, 10])]), (0, []))"
    by (simp add: clean_dataset_def ret_def)
  have dd: "clean_dataset (PDict [(PStr ''n'', PInt 3)]) ((0::nat), []) =
     (Return (PDict [(PStr ''n'', PInt 3)]), (0, []))"
    by (simp add: clean_dataset_def ret_def)
  have cd: "CodeQuiz_clean_dataset (PStr ''1 2 3'') ((0::nat), []) =
     (Return (PStr ''1 2 3''), (0, []))"
    by (simp add: CodeQuiz_clean_dataset_def ret_def)
  show ?thesis
    using cleaned_dataset_type
            [of "PBytes [49, 10]" "((0::nat), [])" "PDict [(PStr ''file'', PBytes [49, 10])]" "((0::nat), [])"]
          cleaned_dataset_type
            [of "PDict [(PStr ''n'', PInt 3)]" "((0::nat), [])" "PDict [(PStr ''n'', PInt 3)]" "((0::nat), [])"]
          cleaned_dataset_type
            [of "PStr ''1 2 3''" "((0::nat), [])" "PStr ''1 2 3''" "((0::nat), [])"]
          ds dd cd
    by simp
qed

text \<open>
  C10. When the raw \<^verbatim>\<open>generate\<close> of a \<^verbatim>\<open>CodeQuiz\<close> returns the empty list, the
  wrapped generate returns the empty list of cases and \<^verbatim>\<open>self_check\<close> returns true, both
  in the world that the raw generate left. This holds whatever \<^verbatim>\<open>solve\<close> and
  \<^verbatim>\<open>check\<close> are (for functions that would raise or change the state as well): they are
  not called.
\<close>

theorem CodeQuiz_empty_generate:
  assumes "call_user_code (raw_generate q) [] w = (Return (PList []), w1)"
  shows "CodeQuiz_generate u q w = (Return [], w1)
       \<and> CodeQuiz_self_check u q w = (Return True, w1)
       \<and> CodeQuiz_self_check u (q\<lparr>raw_solve := solve, raw_check := check\<rparr>) w = (Return True, w1)"
proof -
  have gen: "CodeQuiz_generate u q' w = (Return [], w1)" if "raw_generate q' = raw_generate q" for q'
    unfolding CodeQuiz_generate_def
    using CodeQuiz_wrap_generate_returned[of "raw_generate q'" w "PList []" w1 u "raw_solve q'"]
      assms that
    by simp
  have self: "CodeQuiz_self_check u q' w = (Return True, w1)" if "raw_generate q' = raw_generate q" for q'
    unfolding CodeQuiz_self_check_def using gen[OF that] by (simp add: seq_def)
  show ?thesis
    using gen[of q] self[of q] self[of "q\<lparr>raw_solve := solve, raw_check := check\<rparr>"] by simp
qed

theorem CodeQuiz_empty_generate_witness:
  "call_user_code (raw_generate
       \<lparr>raw_generate = (\<lambda>args s. (Inr (PList []), Suc s)),
        raw_solve = (\<lambda>args s. (Inl ValueError, s)),
        raw_check = (\<lambda>args s. (Inl ValueError, s))\<rparr>) [] ((0::nat), []) =
     (Return (PList []), (1, []))
   \<and> CodeQuiz_generate utils_str
       \<lparr>raw_generate = (\<lambda>args s. (Inr (PList []), Suc s)),
        raw_solve = (\<lambda>args s. (Inl ValueError, s)),
        raw_check = (\<lambda>args s. (Inl ValueError, s))\<rparr> ((0::nat), []) = (Return [], (1, []))
   \<and> CodeQuiz_self_check utils_str
       \<lparr>raw_generate = (\<lambda>args s. (Inr (PList []), Suc s)),
        raw_solve = (\<lambda>args s. (Inl ValueError, s)),
        raw_check = (\<lambda>args s. (Inl ValueError, s))\<rparr> ((0::nat), []) = (Return True, (1, []))"
proof -
  have call: "call_user_code (raw_generate
       \<lparr>raw_generate = (\<lambda>args s. (Inr (PList []), Suc s)),
        raw_solve = (\<lambda>args s. (Inl ValueError, s)),
        raw_check = (\<lambda>args s. (Inl ValueError, s))\<rparr>) [] ((0::nat), []) =
     (Return (PList []), (1, []))"
    by (simp add: call_user_code_def)
  show ?thesis
    using CodeQuiz_empty_generate[OF call, of utils_str] call by simp
qed

end
